theory Spec2Isabelle
  imports Main "HOL-Library.Word"
begin

section \<open>The traced memory image of libipt (pt\_image.c)\<close>

text \<open>
  The image is a singly linked list of section entries. The list is modelled as a HOL list
  in list order (head first). Section objects are shared between entries and images: a section
  handle carries its identity (an address, here a number) and its immutable attributes; the
  mutable part of a section (use count, map count) lives in a store that every operation
  takes and returns.

  The sources of the section, the mapped section and the address-space identifier
  (pt\_section.c, pt\_mapped\_section.c, pt\_asid.c) are not part of the sources at hand. The
  image code calls into them; their behaviour is modelled from the specification, and every
  call that the image code checks for failure can fail in the model, decided by an oracle
  of the environment.
\<close>

subsection \<open>Machine integers and error codes\<close>

type_synonym u8 = "8 word"
type_synonym u16 = "16 word"
type_synonym u64 = "64 word"

datatype pt_error =
    pte_internal
  | pte_invalid
  | pte_nomem
  | pte_nomap
  | pte_bad_image
  | pte_bad_asid
  | pte_eos
  | pte_not_mapped

text \<open>A C status: \<open>Inl e\<close> is the negative error code \<open>-e\<close>, \<open>Inr ()\<close> is zero.\<close>

type_synonym status = "pt_error + unit"

abbreviation ok :: status where
  "ok \<equiv> Inr ()"

subsection \<open>Data model\<close>

text \<open>
  Modelled from the spec: struct pt\_asid (declared in intel-pt.h, which is missing). A pair
  \<open>(cr3, vmcs)\<close> of 64-bit quantities with a sentinel ("no value") for each field; the
  sentinel is \<open>None\<close>.
\<close>

record pt_asid =
  cr3 :: "u64 option"
  vmcs :: "u64 option"

text \<open>
  Modelled from the spec: the user's view of an asid, \<open>{ size, cr3, vmcs }\<close>, where
  \<open>size\<close> versions the struct.
\<close>

record pt_asid_user =
  user_size :: nat
  user_cr3 :: "u64 option"
  user_vmcs :: "u64 option"

text \<open>
  Modelled from the spec: struct pt\_section (pt\_section.h is missing). The handle holds the
  address of the section object and its immutable identity: file name, offset and size.
\<close>

record pt_section =
  sec_addr :: nat
  sec_filename :: string
  sec_offset :: u64
  sec_size :: u64

text \<open>
  Modelled from the spec: struct pt\_mapped\_section (pt\_mapped\_section.h is missing): the
  tuple \<open>(section, asid, vaddr)\<close>. The asid is stored by value (pt\_image\_copy takes its
  address).
\<close>

record pt_mapped_section =
  msec_section :: pt_section
  msec_asid :: pt_asid
  msec_vaddr :: u64

text \<open>
  struct pt\_section\_list of pt\_image.h. The \<open>next\<close> pointer is the tail of the HOL list;
  the field \<open>section\<close> is called \<open>msec\<close> here.
\<close>

record pt_section_list =
  msec :: pt_mapped_section
  mapped :: bool

text \<open>
  The read memory callback: called with the size, the asid, the address and the context; it
  returns the bytes it wrote into the buffer, or an error.
\<close>

type_synonym read_memory_callback_t = "u16 \<Rightarrow> pt_asid \<Rightarrow> u64 \<Rightarrow> nat option \<Rightarrow> pt_error + u8 list"

text \<open>struct pt\_image of pt\_image.h.\<close>

record pt_image =
  name :: "string option"
  sections :: "pt_section_list list"
  readmem_callback :: "read_memory_callback_t option"
  readmem_context :: "nat option"
  cache :: u16
  mapped :: u16

subsection \<open>The environment: calls into the section module and the allocator\<close>

datatype call =
    Malloc
  | Dupstr
  | MkSection string u64 u64
  | Clone nat u64 u64
  | Get nat
  | Put nat
  | Map nat
  | Unmap nat

text \<open>
  The store of section objects and the record of the calls made so far, each with its
  result. \<open>ucount\<close> is the number of references to a section, \<open>mcount\<close> the number of
  successful maps that have not been unmapped, \<open>fresh\<close> the address of the next section
  object.
\<close>

record world =
  ucount :: "nat \<Rightarrow> nat"
  mcount :: "nat \<Rightarrow> nat"
  fresh :: nat
  trace :: "(call \<times> pt_error option) list"

text \<open>
  The environment. \<open>fault c n\<close> says whether call \<open>c\<close>, made after \<open>n\<close> earlier calls,
  fails, and with which error. \<open>file_byte\<close> is the content of the files. \<open>match_absent\<close>
  is what comparing a section's asid with an absent (NULL) asid yields, \<open>sizeof_asid\<close> the
  size of struct pt\_asid: the specification fixes neither.
\<close>

record env =
  fault :: "call \<Rightarrow> nat \<Rightarrow> pt_error option"
  file_byte :: "string \<Rightarrow> u64 \<Rightarrow> u8"
  match_absent :: "pt_error + bool"
  sizeof_asid :: nat

definition injected :: "env \<Rightarrow> call \<Rightarrow> world \<Rightarrow> pt_error option" where
  "injected E c w = fault E c (length (trace w))"

definition logged :: "call \<Rightarrow> pt_error option \<Rightarrow> world \<Rightarrow> world" where
  "logged c r w = w\<lparr>trace := trace w @ [(c, r)]\<rparr>"

text \<open>malloc of a list element: \<open>True\<close> when memory was obtained.\<close>

definition malloc :: "env \<Rightarrow> world \<Rightarrow> bool \<times> world" where
  "malloc E w = (injected E Malloc w = None, logged Malloc (injected E Malloc w) w)"

subsection \<open>Section module\<close>

text \<open>
  The section operations of pt\_section.c, which is missing, are modelled from the
  specification. Every operation that returns a status consults the oracle first.
\<close>

text \<open>
  Modelled from the spec: the metadata accessor \<open>filename\<close> of pt\_section.c, which is
  missing. The C function returns a pointer, which the image code tests for NULL.
\<close>

definition pt_section_filename :: "pt_section \<Rightarrow> string option" where
  "pt_section_filename s = Some (sec_filename s)"

text \<open>Modelled from the spec: the metadata accessor \<open>offset\<close> of pt\_section.c.\<close>

definition pt_section_offset :: "pt_section \<Rightarrow> u64" where
  "pt_section_offset s = sec_offset s"

text \<open>Modelled from the spec: the metadata accessor \<open>size\<close> of pt\_section.c.\<close>

definition pt_section_size :: "pt_section \<Rightarrow> u64" where
  "pt_section_size s = sec_size s"

text \<open>
  Modelled from the spec: \<open>make(path, offset, size)\<close> of pt\_section.c constructs a section
  with reference count 1, not mapped; size 0 is rejected. \<open>None\<close> is the NULL it returns
  on failure.
\<close>

definition pt_mk_section :: "env \<Rightarrow> string \<Rightarrow> u64 \<Rightarrow> u64 \<Rightarrow> world \<Rightarrow> pt_section option \<times> world" where
  "pt_mk_section E fname off sz w =
     (if sz = 0 then (None, logged (MkSection fname off sz) (Some pte_invalid) w)
      else case injected E (MkSection fname off sz) w of
        Some e \<Rightarrow> (None, logged (MkSection fname off sz) (Some e) w)
      | None \<Rightarrow>
          (Some \<lparr>sec_addr = fresh w, sec_filename = fname, sec_offset = off, sec_size = sz\<rparr>,
           logged (MkSection fname off sz) None
             (w\<lparr>ucount := (ucount w)(fresh w := 1), mcount := (mcount w)(fresh w := 0),
                fresh := Suc (fresh w)\<rparr>)))"

text \<open>Modelled from the spec: \<open>get(s)\<close> of pt\_section.c adds a reference.\<close>

definition pt_section_get :: "env \<Rightarrow> pt_section \<Rightarrow> world \<Rightarrow> status \<times> world" where
  "pt_section_get E s w =
     (case injected E (Get (sec_addr s)) w of
        Some e \<Rightarrow> (Inl e, logged (Get (sec_addr s)) (Some e) w)
      | None \<Rightarrow>
          (ok, logged (Get (sec_addr s)) None
                 (w\<lparr>ucount := (ucount w)(sec_addr s := Suc (ucount w (sec_addr s)))\<rparr>)))"

text \<open>
  Modelled from the spec: \<open>put(s)\<close> of pt\_section.c drops a reference; the \<open>put\<close> that
  brings the count to 0 destroys the section and releases a mapping it still holds. A
  \<open>put\<close> on a section without references is reported as an internal error.
\<close>

definition pt_section_put :: "env \<Rightarrow> pt_section \<Rightarrow> world \<Rightarrow> status \<times> world" where
  "pt_section_put E s w =
     (case injected E (Put (sec_addr s)) w of
        Some e \<Rightarrow> (Inl e, logged (Put (sec_addr s)) (Some e) w)
      | None \<Rightarrow>
          if ucount w (sec_addr s) = 0
          then (Inl pte_internal, logged (Put (sec_addr s)) (Some pte_internal) w)
          else if ucount w (sec_addr s) = 1
          then (ok, logged (Put (sec_addr s)) None
                      (w\<lparr>ucount := (ucount w)(sec_addr s := 0),
                         mcount := (mcount w)(sec_addr s := 0)\<rparr>))
          else (ok, logged (Put (sec_addr s)) None
                      (w\<lparr>ucount := (ucount w)(sec_addr s := ucount w (sec_addr s) - 1)\<rparr>)))"

text \<open>
  Modelled from the spec: \<open>map(s)\<close> of pt\_section.c; maps are counted, so that mapping a
  mapped section succeeds.
\<close>

definition pt_section_map :: "env \<Rightarrow> pt_section \<Rightarrow> world \<Rightarrow> status \<times> world" where
  "pt_section_map E s w =
     (case injected E (Map (sec_addr s)) w of
        Some e \<Rightarrow> (Inl e, logged (Map (sec_addr s)) (Some e) w)
      | None \<Rightarrow>
          (ok, logged (Map (sec_addr s)) None
                 (w\<lparr>mcount := (mcount w)(sec_addr s := Suc (mcount w (sec_addr s)))\<rparr>)))"

text \<open>
  Modelled from the spec: \<open>unmap(s)\<close> of pt\_section.c, the inverse of \<open>map\<close>; it may
  fail. An \<open>unmap\<close> of a section that is not mapped is reported as NotMapped, the
  section-level lifecycle error.
\<close>

definition pt_section_unmap :: "env \<Rightarrow> pt_section \<Rightarrow> world \<Rightarrow> status \<times> world" where
  "pt_section_unmap E s w =
     (case injected E (Unmap (sec_addr s)) w of
        Some e \<Rightarrow> (Inl e, logged (Unmap (sec_addr s)) (Some e) w)
      | None \<Rightarrow>
          if mcount w (sec_addr s) = 0
          then (Inl pte_not_mapped, logged (Unmap (sec_addr s)) (Some pte_not_mapped) w)
          else (ok, logged (Unmap (sec_addr s)) None
                      (w\<lparr>mcount := (mcount w)(sec_addr s := mcount w (sec_addr s) - 1)\<rparr>)))"

text \<open>
  Modelled from the spec: \<open>clone(parent, new_offset, new_size)\<close> of pt\_section.c requires
  \<open>new_offset \<ge> parent.file_offset\<close> and
  \<open>new_offset + new_size \<le> parent.file_offset + parent.size\<close>, reported as an internal
  error otherwise, and yields an independent section of the same file with reference count
  1, not mapped.
\<close>

definition pt_section_clone ::
  "env \<Rightarrow> pt_section \<Rightarrow> u64 \<Rightarrow> u64 \<Rightarrow> world \<Rightarrow> (pt_error + pt_section) \<times> world" where
  "pt_section_clone E parent off sz w =
     (if unat off < unat (sec_offset parent)
         \<or> unat (sec_offset parent) + unat (sec_size parent) < unat off + unat sz
      then (Inl pte_internal, logged (Clone (sec_addr parent) off sz) (Some pte_internal) w)
      else case injected E (Clone (sec_addr parent) off sz) w of
        Some e \<Rightarrow> (Inl e, logged (Clone (sec_addr parent) off sz) (Some e) w)
      | None \<Rightarrow>
          (Inr \<lparr>sec_addr = fresh w, sec_filename = sec_filename parent,
                sec_offset = off, sec_size = sz\<rparr>,
           logged (Clone (sec_addr parent) off sz) None
             (w\<lparr>ucount := (ucount w)(fresh w := 1), mcount := (mcount w)(fresh w := 0),
                fresh := Suc (fresh w)\<rparr>)))"

text \<open>
  Modelled from the spec: \<open>read_mapped(s, buf, len, file_off)\<close> of the section module,
  with the file offset relative to the section. It fails with NotMapped if the section is
  not mapped and copies bytes of the file from the section's offset on.
\<close>

definition pt_section_read :: "env \<Rightarrow> pt_section \<Rightarrow> nat \<Rightarrow> u64 \<Rightarrow> world \<Rightarrow> pt_error + u8 list" where
  "pt_section_read E s n off w =
     (if mcount w (sec_addr s) = 0 then Inl pte_not_mapped
      else Inr (map (\<lambda>i. file_byte E (sec_filename s) (sec_offset s + off + of_nat i)) [0..<n]))"

subsection \<open>Address-space identifiers and mapped sections\<close>

text \<open>Modelled from the spec: the fully wildcarded asid of pt\_asid.c, which is missing.\<close>

definition pt_asid_init :: pt_asid where
  "pt_asid_init = \<lparr>cr3 = None, vmcs = None\<rparr>"

text \<open>
  Modelled from the spec: \<open>from_user\<close> of pt\_asid.c, which is missing. It returns a fully
  wildcarded asid if the input is absent, else copies the fields; it fails with BadAsid if
  the user supplies an oversized struct.
\<close>

definition pt_asid_from_user :: "env \<Rightarrow> pt_asid_user option \<Rightarrow> pt_error + pt_asid" where
  "pt_asid_from_user E user =
     (case user of
        None \<Rightarrow> Inr pt_asid_init
      | Some u \<Rightarrow>
          if sizeof_asid E < user_size u then Inl pte_bad_asid
          else Inr \<lparr>cr3 = user_cr3 u, vmcs = user_vmcs u\<rparr>)"

text \<open>
  Modelled from the spec: the comparison of one field in \<open>matches(a, b)\<close> of pt\_asid.c:
  either side is the sentinel or the values are equal.
\<close>

definition field_match :: "u64 option \<Rightarrow> u64 option \<Rightarrow> bool" where
  "field_match l r = (l = None \<or> r = None \<or> l = r)"

text \<open>
  Modelled from the spec: \<open>matches(a, b)\<close> of pt\_asid.c, which is missing, is true iff
  for each field, either side is the sentinel or the values are equal.
\<close>

definition pt_asid_match :: "pt_asid \<Rightarrow> pt_asid \<Rightarrow> bool" where
  "pt_asid_match lhs rhs = (field_match (cr3 lhs) (cr3 rhs) \<and> field_match (vmcs lhs) (vmcs rhs))"

text \<open>
  Modelled from the spec: \<open>init(msec, section, asid, vaddr)\<close> of pt\_mapped\_section.c,
  which is missing, stores the fields. The asid is stored by value; for an absent asid the
  wildcard asid is stored.
\<close>

definition pt_msec_init :: "pt_section \<Rightarrow> pt_asid option \<Rightarrow> u64 \<Rightarrow> pt_mapped_section" where
  "pt_msec_init s a v =
     \<lparr>msec_section = s,
      msec_asid = (case a of None \<Rightarrow> pt_asid_init | Some x \<Rightarrow> x),
      msec_vaddr = v\<rparr>"

text \<open>Modelled from the spec: \<open>begin = vaddr\<close> (pt\_mapped\_section.c).\<close>

definition pt_msec_begin :: "pt_mapped_section \<Rightarrow> u64" where
  "pt_msec_begin m = msec_vaddr m"

text \<open>
  Modelled from the spec: \<open>end = vaddr + section.size\<close> (pt\_mapped\_section.c), in 64-bit
  arithmetic.
\<close>

definition pt_msec_end :: "pt_mapped_section \<Rightarrow> u64" where
  "pt_msec_end m = msec_vaddr m + pt_section_size (msec_section m)"

text \<open>
  Modelled from the spec: the accessor of the asid of a mapped section
  (pt\_mapped\_section.c); it returns the address of the stored asid, which is never NULL.
\<close>

definition pt_msec_asid :: "pt_mapped_section \<Rightarrow> pt_asid option" where
  "pt_msec_asid m = Some (msec_asid m)"

text \<open>
  Modelled from the spec: \<open>matches_asid(msec, asid)\<close> of pt\_mapped\_section.c delegates to
  the asid match. What it yields for an absent asid is a parameter of the environment.
\<close>

definition pt_msec_matches_asid :: "env \<Rightarrow> pt_mapped_section \<Rightarrow> pt_asid option \<Rightarrow> pt_error + bool" where
  "pt_msec_matches_asid E m a =
     (case a of None \<Rightarrow> match_absent E | Some x \<Rightarrow> Inr (pt_asid_match (msec_asid m) x))"

text \<open>
  Modelled from the spec: \<open>read_mapped(msec, buf, len, asid, addr)\<close> of
  pt\_mapped\_section.c requires a matching asid and \<open>begin \<le> addr < end\<close>, else NoMap,
  and returns up to \<open>min(len, end - addr)\<close> bytes of the section from \<open>addr - begin\<close>
  on.
\<close>

definition pt_msec_read_mapped ::
  "env \<Rightarrow> pt_mapped_section \<Rightarrow> u16 \<Rightarrow> pt_asid \<Rightarrow> u64 \<Rightarrow> world \<Rightarrow> pt_error + u8 list" where
  "pt_msec_read_mapped E m sz a addr w =
     (if \<not> pt_asid_match (msec_asid m) a then Inl pte_nomap
      else if addr < pt_msec_begin m \<or> pt_msec_end m \<le> addr then Inl pte_nomap
      else pt_section_read E (msec_section m)
             (min (unat sz) (unat (pt_msec_end m - addr))) (addr - pt_msec_begin m) w)"

subsection \<open>List elements\<close>

text \<open>pt\_mk\_section\_list: \<open>None\<close> is the NULL it returns when malloc or pt\_section\_get fails.\<close>

definition pt_mk_section_list ::
  "env \<Rightarrow> pt_section \<Rightarrow> pt_asid option \<Rightarrow> u64 \<Rightarrow> world \<Rightarrow> pt_section_list option \<times> world" where
  "pt_mk_section_list E s a v w =
     (case malloc E w of
        (False, w1) \<Rightarrow> (None, w1)
      | (True, w1) \<Rightarrow>
          (case pt_section_get E s w1 of
             (Inl e, w2) \<Rightarrow> (None, w2)
           | (Inr u, w2) \<Rightarrow> (Some \<lparr>msec = pt_msec_init s a v, mapped = False\<rparr>, w2)))"

text \<open>pt\_section\_list\_free: the results of unmap and put are ignored.\<close>

definition pt_section_list_free :: "env \<Rightarrow> pt_section_list \<Rightarrow> world \<Rightarrow> world" where
  "pt_section_list_free E l w =
     snd (pt_section_put E (msec_section (msec l))
            (if pt_section_list.mapped l
             then snd (pt_section_unmap E (msec_section (msec l)) w)
             else w))"

primrec pt_section_list_free_tail :: "env \<Rightarrow> pt_section_list list \<Rightarrow> world \<Rightarrow> world" where
  "pt_section_list_free_tail E [] w = w"
| "pt_section_list_free_tail E (trash # l) w =
     pt_section_list_free_tail E l (pt_section_list_free E trash w)"

subsection \<open>Initialisation and callback\<close>

definition dupstr :: "env \<Rightarrow> string option \<Rightarrow> world \<Rightarrow> string option \<times> world" where
  "dupstr E str w =
     (case str of
        None \<Rightarrow> (None, w)
      | Some s \<Rightarrow>
          (case injected E Dupstr w of
             Some e \<Rightarrow> (None, logged Dupstr (Some e) w)
           | None \<Rightarrow> (Some s, logged Dupstr None w)))"

definition pt_image_init :: "env \<Rightarrow> string option \<Rightarrow> world \<Rightarrow> pt_image \<times> world" where
  "pt_image_init E nm w =
     (case dupstr E nm w of
        (d, w1) \<Rightarrow>
          (\<lparr>name = d, sections = [], readmem_callback = None, readmem_context = None,
            cache = 10, mapped = 0\<rparr>, w1))"

definition pt_image_set_callback ::
  "pt_image option \<Rightarrow> read_memory_callback_t option \<Rightarrow> nat option \<Rightarrow> status \<times> pt_image option" where
  "pt_image_set_callback image_p cb ctx =
     (case image_p of
        None \<Rightarrow> (Inl pte_invalid, None)
      | Some img \<Rightarrow> (ok, Some (img\<lparr>readmem_callback := cb, readmem_context := ctx\<rparr>)))"

subsection \<open>Adding a section\<close>

text \<open>
  pt\_image\_clone: push a clone of the part \<open>[begin, end)\<close> of \<open>m\<close> onto \<open>l\<close>. The
  result holds the status, the list and the store.
\<close>

definition pt_image_clone ::
  "env \<Rightarrow> pt_section_list list \<Rightarrow> pt_mapped_section \<Rightarrow> u64 \<Rightarrow> u64 \<Rightarrow> world
     \<Rightarrow> status \<times> pt_section_list list \<times> world" where
  "pt_image_clone E l m begin end w =
     (let sec = msec_section m;
          mbegin = pt_msec_begin m;
          sbegin = pt_section_offset sec
      in if end \<le> begin then (Inl pte_internal, l, w)
         else if begin < mbegin then (Inl pte_internal, l, w)
         else
           (case pt_section_clone E sec (sbegin + (begin - mbegin)) (end - begin) w of
              (Inl e, w1) \<Rightarrow> (Inl e, l, w1)
            | (Inr s, w1) \<Rightarrow>
                (case pt_mk_section_list E s (pt_msec_asid m) begin w1 of
                   (None, w2) \<Rightarrow> (Inl pte_nomem, l, snd (pt_section_put E s w2))
                 | (Some nxt, w2) \<Rightarrow>
                     (case pt_section_put E s w2 of
                        (Inl e, w3) \<Rightarrow> (Inl e, l, pt_section_list_free E nxt w3)
                      | (Inr u, w3) \<Rightarrow> (ok, nxt # l, w3)))))"

text \<open>
  How the loop of pt\_image\_add ends: at the end of the list, by the return on an identical
  overlap, or by a break with an error code.
\<close>

datatype walk_exit = Walk_done | Walk_identical | Walk_failed pt_error

text \<open>
  The check for an identical overlap (lines 258 to 281): \<open>None\<close> when the loop body goes
  on to remove the current element. \<open>nxt\<close> is the list of pending elements, headed by the
  latest; \<open>next->next\<close> is its tail.
\<close>

definition pt_image_add_identical ::
  "pt_section \<Rightarrow> pt_mapped_section \<Rightarrow> u64 \<Rightarrow> u64 \<Rightarrow> pt_section_list list \<Rightarrow> pt_section_list list
     \<Rightarrow> walk_exit option" where
  "pt_image_add_identical s m begin end nxt removed =
     (if begin = pt_msec_begin m \<and> end = pt_msec_end m
      then (case (pt_section_filename s, pt_section_filename (msec_section m)) of
              (Some fname, Some lfname) \<Rightarrow>
                if fname = lfname
                then (if removed \<noteq> [] \<or> tl nxt \<noteq> [] then Some (Walk_failed pte_internal)
                      else Some Walk_identical)
                else None
            | _ \<Rightarrow> Some (Walk_failed pte_internal))
      else None)"

text \<open>
  The rest of the loop body (lines 287 to 316), after \<open>current\<close> has been unlinked: unmap
  it, and clone the parts of it that lie before \<open>begin\<close> and after \<open>end\<close>. The result
  holds the status, the pending list, the element as it is put on the removed list, and the
  store.
\<close>

definition pt_image_add_replace ::
  "env \<Rightarrow> pt_section_list list \<Rightarrow> pt_section_list \<Rightarrow> u64 \<Rightarrow> u64 \<Rightarrow> world
     \<Rightarrow> status \<times> pt_section_list list \<times> pt_section_list \<times> world" where
  "pt_image_add_replace E nxt current begin end w =
     (let m = msec current;
          lbegin = pt_msec_begin m;
          lend = pt_msec_end m;
          w1 = (if pt_section_list.mapped current
                then snd (pt_section_unmap E (msec_section m) w) else w);
          cur = (if pt_section_list.mapped current
                 then current\<lparr>pt_section_list.mapped := False\<rparr> else current)
      in case (if lbegin < begin then pt_image_clone E nxt m lbegin begin w1
               else (ok, nxt, w1)) of
           (Inl e, nxt1, w2) \<Rightarrow> (Inl e, nxt1, cur, w2)
         | (Inr u, nxt1, w2) \<Rightarrow>
             (case (if end < lend then pt_image_clone E nxt1 m end lend w2
                    else (ok, nxt1, w2)) of
                (st, nxt2, w3) \<Rightarrow> (st, nxt2, cur, w3)))"

text \<open>
  The loop of pt\_image\_add (lines 225 to 317). \<open>pre\<close> holds the elements the pointer
  \<open>list\<close> has passed, in list order; the last argument but one is the list from \<open>*list\<close>
  on. The result holds the way the loop ended and the four lists at that moment.
\<close>

fun pt_image_add_loop ::
  "env \<Rightarrow> pt_section \<Rightarrow> pt_asid option \<Rightarrow> u64 \<Rightarrow> u64
     \<Rightarrow> pt_section_list list \<Rightarrow> pt_section_list list \<Rightarrow> pt_section_list list
     \<Rightarrow> pt_section_list list \<Rightarrow> world
     \<Rightarrow> walk_exit \<times> pt_section_list list \<times> pt_section_list list
         \<times> pt_section_list list \<times> pt_section_list list \<times> world" where
  "pt_image_add_loop E s a begin end pre nxt removed [] w =
     (Walk_done, pre, [], nxt, removed, w)"
| "pt_image_add_loop E s a begin end pre nxt removed (current # rest) w =
     (case pt_msec_matches_asid E (msec current) a of
        Inl e \<Rightarrow> (Walk_failed e, pre, current # rest, nxt, removed, w)
      | Inr False \<Rightarrow> pt_image_add_loop E s a begin end (pre @ [current]) nxt removed rest w
      | Inr True \<Rightarrow>
          if end \<le> pt_msec_begin (msec current) \<or> pt_msec_end (msec current) \<le> begin
          then pt_image_add_loop E s a begin end (pre @ [current]) nxt removed rest w
          else
            (case pt_image_add_identical s (msec current) begin end nxt removed of
               Some x \<Rightarrow> (x, pre, current # rest, nxt, removed, w)
             | None \<Rightarrow>
                 (case pt_image_add_replace E nxt current begin end w of
                    (Inl e, nxt1, cur, w1) \<Rightarrow>
                      (Walk_failed e, pre, rest, nxt1, cur # removed, w1)
                  | (Inr u, nxt1, cur, w1) \<Rightarrow>
                      pt_image_add_loop E s a begin end pre nxt1 (cur # removed) rest w1)))"

text \<open>
  pt\_image\_add. The result holds the status, the image and the store. On an identical
  overlap the new element is freed and the list stays as it is; on an error the pending
  elements are freed and the removed ones go to the tail of the list; at the end of the list
  the removed elements are freed and the pending ones go to the tail.
\<close>

definition pt_image_add ::
  "env \<Rightarrow> pt_image option \<Rightarrow> pt_section option \<Rightarrow> pt_asid option \<Rightarrow> u64 \<Rightarrow> world
     \<Rightarrow> status \<times> pt_image option \<times> world" where
  "pt_image_add E image_p section_p a vaddr w =
     (case (image_p, section_p) of
        (Some img, Some s) \<Rightarrow>
          (case pt_mk_section_list E s a vaddr w of
             (None, w1) \<Rightarrow> (Inl pte_nomem, image_p, w1)
           | (Some n, w1) \<Rightarrow>
               (case pt_image_add_loop E s a vaddr (vaddr + pt_section_size s)
                       [] [n] [] (sections img) w1 of
                  (Walk_identical, pre, rest, nxt, removed, w2) \<Rightarrow>
                    (ok, Some (img\<lparr>sections := pre @ rest\<rparr>),
                     (case nxt of [] \<Rightarrow> w2 | l # t \<Rightarrow> pt_section_list_free E l w2))
                | (Walk_failed e, pre, rest, nxt, removed, w2) \<Rightarrow>
                    (Inl e, Some (img\<lparr>sections := pre @ rest @ removed\<rparr>),
                     pt_section_list_free_tail E nxt w2)
                | (Walk_done, pre, rest, nxt, removed, w2) \<Rightarrow>
                    (ok, Some (img\<lparr>sections := pre @ rest @ nxt\<rparr>),
                     pt_section_list_free_tail E removed w2)))
      | _ \<Rightarrow> (Inl pte_internal, image_p, w))"

text \<open>pt\_image\_add\_file.\<close>

definition pt_image_add_file ::
  "env \<Rightarrow> pt_image option \<Rightarrow> string option \<Rightarrow> u64 \<Rightarrow> u64 \<Rightarrow> pt_asid_user option \<Rightarrow> u64 \<Rightarrow> world
     \<Rightarrow> status \<times> pt_image option \<times> world" where
  "pt_image_add_file E image_p filename off sz uasid vaddr w =
     (case (image_p, filename) of
        (Some img, Some fname) \<Rightarrow>
          (case pt_asid_from_user E uasid of
             Inl e \<Rightarrow> (Inl e, image_p, w)
           | Inr a \<Rightarrow>
               (case pt_mk_section E fname off sz w of
                  (None, w1) \<Rightarrow> (Inl pte_invalid, image_p, w1)
                | (Some s, w1) \<Rightarrow>
                    (case pt_image_add E image_p (Some s) (Some a) vaddr w1 of
                       (Inl e, image_q, w2) \<Rightarrow> (Inl e, image_q, snd (pt_section_put E s w2))
                     | (Inr u, image_q, w2) \<Rightarrow>
                         (case pt_section_put E s w2 of
                            (Inl e, w3) \<Rightarrow> (Inl e, image_q, w3)
                          | (Inr u, w3) \<Rightarrow> (ok, image_q, w3)))))
      | _ \<Rightarrow> (Inl pte_invalid, image_p, w))"

subsection \<open>Removing a section\<close>

text \<open>
  The loop of pt\_image\_remove (lines 344 to 365). The section is compared by address, as
  the pointers are.
\<close>

fun pt_image_remove_loop ::
  "env \<Rightarrow> pt_section \<Rightarrow> pt_asid option \<Rightarrow> u64 \<Rightarrow> pt_section_list list \<Rightarrow> world
     \<Rightarrow> status \<times> pt_section_list list \<times> world" where
  "pt_image_remove_loop E s a vaddr [] w = (Inl pte_bad_image, [], w)"
| "pt_image_remove_loop E s a vaddr (trash # rest) w =
     (case pt_msec_matches_asid E (msec trash) a of
        Inl e \<Rightarrow> (Inl e, trash # rest, w)
      | Inr False \<Rightarrow>
          (case pt_image_remove_loop E s a vaddr rest w of
             (st, rest1, w1) \<Rightarrow> (st, trash # rest1, w1))
      | Inr True \<Rightarrow>
          if sec_addr (msec_section (msec trash)) = sec_addr s \<and> msec_vaddr (msec trash) = vaddr
          then (ok, rest, pt_section_list_free E trash w)
          else (case pt_image_remove_loop E s a vaddr rest w of
                  (st, rest1, w1) \<Rightarrow> (st, trash # rest1, w1)))"

definition pt_image_remove ::
  "env \<Rightarrow> pt_image option \<Rightarrow> pt_section option \<Rightarrow> pt_asid option \<Rightarrow> u64 \<Rightarrow> world
     \<Rightarrow> status \<times> pt_image option \<times> world" where
  "pt_image_remove E image_p section_p a vaddr w =
     (case (image_p, section_p) of
        (Some img, Some s) \<Rightarrow>
          (case pt_image_remove_loop E s a vaddr (sections img) w of
             (st, l, w1) \<Rightarrow> (st, Some (img\<lparr>sections := l\<rparr>), w1))
      | _ \<Rightarrow> (Inl pte_internal, image_p, w))"

subsection \<open>Pruning the cache\<close>

text \<open>
  The loop of pt\_image\_prune\_cache (lines 535 to 556): the arguments after the cache size
  are the counter \<open>mapped\<close> and \<open>status\<close>; the result holds the list, the counter, the
  status and the store.
\<close>

fun pt_image_prune_loop ::
  "env \<Rightarrow> u16 \<Rightarrow> u16 \<Rightarrow> status \<Rightarrow> pt_section_list list \<Rightarrow> world
     \<Rightarrow> pt_section_list list \<times> u16 \<times> status \<times> world" where
  "pt_image_prune_loop E c m st [] w = ([], m, st, w)"
| "pt_image_prune_loop E c m st (l # rest) w =
     (if \<not> pt_section_list.mapped l
      then (case pt_image_prune_loop E c m st rest w of
              (rest1, m1, st1, w1) \<Rightarrow> (l # rest1, m1, st1, w1))
      else if m + 1 \<le> c
      then (case pt_image_prune_loop E c (m + 1) st rest w of
              (rest1, m1, st1, w1) \<Rightarrow> (l # rest1, m1, st1, w1))
      else (case pt_section_unmap E (msec_section (msec l)) w of
              (Inl e, w0) \<Rightarrow>
                (case pt_image_prune_loop E c (m + 1) (Inl e) rest w0 of
                   (rest1, m1, st1, w1) \<Rightarrow> (l # rest1, m1, st1, w1))
            | (Inr u, w0) \<Rightarrow>
                (case pt_image_prune_loop E c (m + 1 - 1) st rest w0 of
                   (rest1, m1, st1, w1) \<Rightarrow>
                     (l\<lparr>pt_section_list.mapped := False\<rparr> # rest1, m1, st1, w1))))"

definition pt_image_prune_cache :: "env \<Rightarrow> pt_image \<Rightarrow> world \<Rightarrow> status \<times> pt_image \<times> world" where
  "pt_image_prune_cache E img w =
     (case pt_image_prune_loop E (cache img) 0 ok (sections img) w of
        (l, m, st, w1) \<Rightarrow> (st, img\<lparr>sections := l, pt_image.mapped := m\<rparr>, w1))"

subsection \<open>Reading\<close>

definition pt_image_read_callback :: "pt_image \<Rightarrow> u16 \<Rightarrow> pt_asid \<Rightarrow> u64 \<Rightarrow> pt_error + u8 list" where
  "pt_image_read_callback img sz a addr =
     (case readmem_callback img of
        None \<Rightarrow> Inl pte_nomap
      | Some cb \<Rightarrow> cb sz a addr (readmem_context img))"

text \<open>
  The end of the loop body of pt\_image\_read\_cold (lines 618 to 651), once \<open>elem\<close> has been
  read: \<open>pre\<close> are the elements before it and \<open>rest\<close> those after it. The element moves
  to the front and, if it was not mapped, is kept mapped when the cache has room.
\<close>

definition pt_image_read_cold_hit ::
  "env \<Rightarrow> pt_image \<Rightarrow> pt_section_list list \<Rightarrow> pt_section_list \<Rightarrow> pt_section_list list
     \<Rightarrow> u8 list \<Rightarrow> world \<Rightarrow> (pt_error + u8 list) \<times> pt_image \<times> world" where
  "pt_image_read_cold_hit E img pre elem rest bytes w =
     (if pt_section_list.mapped elem
      then (Inr bytes, img\<lparr>sections := elem # pre @ rest\<rparr>, w)
      else if cache img \<noteq> 0
      then (let already = pt_image.mapped img + 1;
                img1 = img\<lparr>sections := elem\<lparr>pt_section_list.mapped := True\<rparr> # pre @ rest,
                           pt_image.mapped := already\<rparr>
            in if cache img < already
               then (case pt_image_prune_cache E img1 w of
                       (Inl e, img2, w1) \<Rightarrow> (Inl e, img2, w1)
                     | (Inr u, img2, w1) \<Rightarrow> (Inr bytes, img2, w1))
               else (Inr bytes, img1, w))
      else (case pt_section_unmap E (msec_section (msec elem)) w of
              (Inl e, w1) \<Rightarrow> (Inl e, img\<lparr>sections := elem # pre @ rest\<rparr>, w1)
            | (Inr u, w1) \<Rightarrow> (Inr bytes, img\<lparr>sections := elem # pre @ rest\<rparr>, w1)))"

text \<open>
  pt\_image\_read\_cold: \<open>pre\<close> holds the elements before the pointer \<open>list\<close>, the next
  argument is the list from \<open>*list\<close> on.
\<close>

fun pt_image_read_cold ::
  "env \<Rightarrow> pt_image \<Rightarrow> pt_section_list list \<Rightarrow> pt_section_list list \<Rightarrow> u16 \<Rightarrow> pt_asid \<Rightarrow> u64
     \<Rightarrow> world \<Rightarrow> (pt_error + u8 list) \<times> pt_image \<times> world" where
  "pt_image_read_cold E img pre [] sz a addr w =
     (pt_image_read_callback img sz a addr, img, w)"
| "pt_image_read_cold E img pre (elem # rest) sz a addr w =
     (case (if \<not> pt_section_list.mapped elem
            then pt_section_map E (msec_section (msec elem)) w else (ok, w)) of
        (Inl e, w1) \<Rightarrow> (Inl e, img, w1)
      | (Inr u, w1) \<Rightarrow>
          (case pt_msec_read_mapped E (msec elem) sz a addr w1 of
             Inl x \<Rightarrow>
               (case (if \<not> pt_section_list.mapped elem
                      then pt_section_unmap E (msec_section (msec elem)) w1 else (ok, w1)) of
                  (Inl e, w2) \<Rightarrow> (Inl e, img, w2)
                | (Inr u, w2) \<Rightarrow> pt_image_read_cold E img (pre @ [elem]) rest sz a addr w2)
           | Inr bytes \<Rightarrow> pt_image_read_cold_hit E img pre elem rest bytes w1))"

text \<open>
  The loop of pt\_image\_read (lines 666 to 691) over the mapped elements at the head of the
  list: \<open>Inr\<close> with the bytes and the new list when an element was read, \<open>Inl\<close> with the
  position of \<open>list\<close> when the loop ends.
\<close>

fun pt_image_read_loop ::
  "env \<Rightarrow> u16 \<Rightarrow> pt_asid \<Rightarrow> u64 \<Rightarrow> world \<Rightarrow> pt_section_list list \<Rightarrow> pt_section_list list
     \<Rightarrow> (pt_section_list list \<times> pt_section_list list) + (u8 list \<times> pt_section_list list)" where
  "pt_image_read_loop E sz a addr w pre [] = Inl (pre, [])"
| "pt_image_read_loop E sz a addr w pre (elem # rest) =
     (if \<not> pt_section_list.mapped elem then Inl (pre, elem # rest)
      else (case pt_msec_read_mapped E (msec elem) sz a addr w of
              Inl x \<Rightarrow> pt_image_read_loop E sz a addr w (pre @ [elem]) rest
            | Inr bytes \<Rightarrow> Inr (bytes, elem # pre @ rest)))"

definition pt_image_read ::
  "env \<Rightarrow> pt_image option \<Rightarrow> u16 \<Rightarrow> pt_asid option \<Rightarrow> u64 \<Rightarrow> world
     \<Rightarrow> (pt_error + u8 list) \<times> pt_image option \<times> world" where
  "pt_image_read E image_p sz asid_p addr w =
     (case (image_p, asid_p) of
        (Some img, Some a) \<Rightarrow>
          (case pt_image_read_loop E sz a addr w [] (sections img) of
             Inr (bytes, l) \<Rightarrow> (Inr bytes, Some (img\<lparr>sections := l\<rparr>), w)
           | Inl (pre, l) \<Rightarrow>
               (case pt_image_read_cold E img pre l sz a addr w of
                  (r, img1, w1) \<Rightarrow> (r, Some img1, w1)))
      | _ \<Rightarrow> (Inl pte_internal, image_p, w))"

subsection \<open>Notions used to state the properties\<close>

text \<open>
  The test of pt\_image\_add for an overlap of \<open>[begin, end)\<close> with an element (line 246),
  negated.
\<close>

definition overlaps :: "u64 \<Rightarrow> u64 \<Rightarrow> pt_section_list \<Rightarrow> bool" where
  "overlaps begin end l = (\<not> (end \<le> pt_msec_begin (msec l) \<or> pt_msec_end (msec l) \<le> begin))"

text \<open>
  The loop of pt\_image\_add passes over an element when its asid does not match or it does
  not overlap; otherwise, when the comparison of the asids does not fail, the element is in
  conflict with the new section.
\<close>

definition skips :: "env \<Rightarrow> pt_asid option \<Rightarrow> u64 \<Rightarrow> u64 \<Rightarrow> pt_section_list \<Rightarrow> bool" where
  "skips E a begin end l =
     (case pt_msec_matches_asid E (msec l) a of
        Inl e \<Rightarrow> False
      | Inr b \<Rightarrow> \<not> b \<or> \<not> overlaps begin end l)"

definition conflicts :: "env \<Rightarrow> pt_asid option \<Rightarrow> u64 \<Rightarrow> u64 \<Rightarrow> pt_section_list \<Rightarrow> bool" where
  "conflicts E a begin end l =
     (pt_msec_matches_asid E (msec l) a = Inr True \<and> overlaps begin end l)"

text \<open>No call into the section module or the allocator fails from the state \<open>w\<close> on.\<close>

definition no_faults_after :: "env \<Rightarrow> world \<Rightarrow> bool" where
  "no_faults_after E w = (\<forall>c n. length (trace w) \<le> n \<longrightarrow> fault E c n = None)"

text \<open>
  An entry for the region of section \<open>s\<close> at \<open>vaddr\<close> in \<open>a\<close>: its asid matches, it
  covers the same addresses and it has the same file name.
\<close>

definition region_entry :: "pt_asid \<Rightarrow> u64 \<Rightarrow> pt_section \<Rightarrow> pt_section_list \<Rightarrow> bool" where
  "region_entry a vaddr s l =
     (pt_asid_match (msec_asid (msec l)) a \<and> pt_msec_begin (msec l) = vaddr \<and>
      pt_msec_end (msec l) = vaddr + pt_section_size s \<and>
      pt_section_filename (msec_section (msec l)) = pt_section_filename s)"

text \<open>An element as pt\_image\_add puts it on its list of removed elements (line 301).\<close>

definition unmapped :: "pt_section_list \<Rightarrow> pt_section_list" where
  "unmapped l = l\<lparr>pt_section_list.mapped := False\<rparr>"

text \<open>
  The element pt\_image\_remove looks for: its asid matches, it holds the very section
  object and it sits at \<open>vaddr\<close>.
\<close>

definition removal_target :: "pt_section \<Rightarrow> pt_asid \<Rightarrow> u64 \<Rightarrow> pt_section_list \<Rightarrow> bool" where
  "removal_target s a vaddr l =
     (pt_asid_match (msec_asid (msec l)) a \<and>
      sec_addr (msec_section (msec l)) = sec_addr s \<and> msec_vaddr (msec l) = vaddr)"

text \<open>The errors of the unmap calls in a record of calls, in the order of the calls.\<close>

fun unmap_errors :: "(call \<times> pt_error option) list \<Rightarrow> pt_error list" where
  "unmap_errors [] = []"
| "unmap_errors ((Unmap a, Some e) # tr) = e # unmap_errors tr"
| "unmap_errors (x # tr) = unmap_errors tr"

text \<open>A mapped section answers a read at \<open>addr\<close> in \<open>a\<close>, once its section is mapped.\<close>

definition covers :: "pt_mapped_section \<Rightarrow> pt_asid \<Rightarrow> u64 \<Rightarrow> bool" where
  "covers m a addr =
     (pt_asid_match (msec_asid m) a \<and> pt_msec_begin m \<le> addr \<and> addr < pt_msec_end m)"

subsection \<open>Concrete runs\<close>

text \<open>
  An environment in which no call fails and files hold zeros, an empty store, and the image
  pt\_image\_init yields there. In this environment the comparison of a section's asid with an
  absent asid is an internal error, the error of a null handle where one was required.
\<close>

definition env0 :: env where
  "env0 = \<lparr>fault = (\<lambda>c n. None), file_byte = (\<lambda>f off. 0),
            match_absent = Inl pte_internal, sizeof_asid = 24\<rparr>"

definition world0 :: world where
  "world0 = \<lparr>ucount = (\<lambda>a. 0), mcount = (\<lambda>a. 0), fresh = 0, trace = []\<rparr>"

definition image0 :: pt_image where
  "image0 = fst (pt_image_init env0 None world0)"

definition user_asid :: "u64 \<Rightarrow> pt_asid_user" where
  "user_asid c = \<lparr>user_size = 24, user_cr3 = Some c, user_vmcs = None\<rparr>"

definition asid_cr3 :: "u64 \<Rightarrow> pt_asid" where
  "asid_cr3 c = \<lparr>cr3 = Some c, vmcs = None\<rparr>"

definition entry ::
  "nat \<Rightarrow> string \<Rightarrow> u64 \<Rightarrow> u64 \<Rightarrow> u64 option \<Rightarrow> u64 \<Rightarrow> bool \<Rightarrow> pt_section_list" where
  "entry a f off sz c v m =
     \<lparr>msec = \<lparr>msec_section = \<lparr>sec_addr = a, sec_filename = f, sec_offset = off, sec_size = sz\<rparr>,
              msec_asid = \<lparr>cr3 = c, vmcs = None\<rparr>, msec_vaddr = v\<rparr>,
      mapped = m\<rparr>"

text \<open>
  Two files at the same addresses in two address spaces, then a third add for all address
  spaces.
\<close>

definition iso_a where
  "iso_a = pt_image_add_file env0 (Some image0) (Some ''/b'') 0 0x10 (Some (user_asid 1)) 0 world0"

definition iso_b where
  "iso_b = pt_image_add_file env0 (fst (snd iso_a)) (Some ''/a'') 0 0x10 (Some (user_asid 2)) 0
             (snd (snd iso_a))"

definition iso_s where
  "iso_s = pt_mk_section env0 ''/a'' 0 0x10 (snd (snd iso_b))"

definition iso_c where
  "iso_c = pt_image_add env0 (fst (snd iso_b)) (fst iso_s) (Some pt_asid_init) 0 (snd iso_s)"

text \<open>The file /a at the same addresses in two address spaces, then twice for all address spaces.\<close>

definition twin_a where
  "twin_a = pt_image_add_file env0 (Some image0) (Some ''/a'') 0 0x10 (Some (user_asid 1)) 0 world0"

definition twin_b where
  "twin_b = pt_image_add_file env0 (fst (snd twin_a)) (Some ''/a'') 0 0x10 (Some (user_asid 2)) 0
              (snd (snd twin_a))"

definition twin_c where
  "twin_c = pt_image_add_file env0 (fst (snd twin_b)) (Some ''/a'') 0 0x10 None 0 (snd (snd twin_b))"

definition twin_d where
  "twin_d = pt_image_add_file env0 (fst (snd twin_c)) (Some ''/a'') 0 0x10 None 0 (snd (snd twin_c))"

text \<open>The same range of /a from another file offset in another address space.\<close>

definition offs_s where
  "offs_s = pt_mk_section env0 ''/a'' 0x20 0x10 (snd (snd twin_a))"


text \<open>The same section added with a NULL asid to the image that holds /a.\<close>

definition null_add where
  "null_add = pt_image_add env0 (fst (snd twin_a)) (fst offs_s) None 0 (snd offs_s)"

text \<open>Scenario 1 of the specification: /b is added into the middle of /a.\<close>

definition split_a where
  "split_a = pt_image_add_file env0 (Some image0) (Some ''/a'') 0 0x1000 (Some (user_asid 1))
               0x10000 world0"

definition split_b where
  "split_b = pt_image_add_file env0 (fst (snd split_a)) (Some ''/b'') 0 0x100 (Some (user_asid 1))
               0x10400 (snd (snd split_a))"

text \<open>A section is read, and thereby mapped, and then replaced by another file.\<close>

definition stale_b where
  "stale_b = pt_image_read env0 (fst (snd twin_a)) 4 (Some (asid_cr3 1)) 0 (snd (snd twin_a))"

definition stale_c where
  "stale_c = pt_image_add_file env0 (fst (snd stale_b)) (Some ''/b'') 0 0x10 (Some (user_asid 1)) 0
               (snd (snd stale_b))"

text \<open>
  Scenario 4 of the specification: three sections of 16 bytes, a cache of two, one read from
  each section. \<open>lru_run E c\<close> is the run in environment \<open>E\<close> with cache size \<open>c\<close>.
\<close>

definition lru_a where
  "lru_a E c = pt_image_add_file E (Some (image0\<lparr>cache := c\<rparr>)) (Some ''/s0'') 0 0x10
                 (Some (user_asid 1)) 0 world0"

definition lru_b where
  "lru_b E c = pt_image_add_file E (fst (snd (lru_a E c))) (Some ''/s1'') 0 0x10
                 (Some (user_asid 1)) 0x10 (snd (snd (lru_a E c)))"

definition lru_c where
  "lru_c E c = pt_image_add_file E (fst (snd (lru_b E c))) (Some ''/s2'') 0 0x10
                 (Some (user_asid 1)) 0x20 (snd (snd (lru_b E c)))"

definition lru_r0 where
  "lru_r0 E c = pt_image_read E (fst (snd (lru_c E c))) 4 (Some (asid_cr3 1)) 0
                  (snd (snd (lru_c E c)))"

definition lru_r1 where
  "lru_r1 E c = pt_image_read E (fst (snd (lru_r0 E c))) 4 (Some (asid_cr3 1)) 0x10
                  (snd (snd (lru_r0 E c)))"

definition lru_r2 where
  "lru_r2 E c = pt_image_read E (fst (snd (lru_r1 E c))) 4 (Some (asid_cr3 1)) 0x20
                  (snd (snd (lru_r1 E c)))"

text \<open>
  An environment in which the sections at 0 and 1 cannot be unmapped, for different reasons,
  and a pruning of the image that the three reads leave with a cache of one.
\<close>

definition env_unmap :: env where
  "env_unmap = env0\<lparr>fault := (\<lambda>c n. if c = Unmap 1 then Some pte_bad_image
                                     else if c = Unmap 0 then Some pte_internal else None)\<rparr>"

definition prune_run where
  "prune_run = pt_image_prune_cache env_unmap (the (fst (snd (lru_r2 env_unmap 1))))
                 (snd (snd (lru_r2 env_unmap 1)))"

text \<open>
  An environment in which the section at 0 cannot be mapped, a callback that yields one byte,
  and a read at an address outside the only section.
\<close>

definition env_map :: env where
  "env_map = env0\<lparr>fault := (\<lambda>c n. if c = Map 0 then Some pte_bad_image else None)\<rparr>"

definition one_byte :: read_memory_callback_t where
  "one_byte sz a addr ctx = Inr [0xAB]"

definition cb_a where
  "cb_a = pt_image_add_file env_map (Some image0) (Some ''/a'') 0 0x10 (Some (user_asid 1)) 0 world0"

definition cb_s where
  "cb_s = pt_image_set_callback (fst (snd cb_a)) (Some one_byte) None"

definition cb_r where
  "cb_r = pt_image_read env_map (snd cb_s) 4 (Some (asid_cr3 1)) 0x1234 (snd (snd cb_a))"

text \<open>Images and sections written out.\<close>

definition image_of :: "pt_section_list list \<Rightarrow> pt_image" where
  "image_of l = image0\<lparr>sections := l\<rparr>"

definition section_of :: "nat \<Rightarrow> string \<Rightarrow> u64 \<Rightarrow> u64 \<Rightarrow> pt_section" where
  "section_of a f off sz = \<lparr>sec_addr = a, sec_filename = f, sec_offset = off, sec_size = sz\<rparr>"

section \<open>Properties of pt\_image\_add\<close>

subsection \<open>The loop, step by step\<close>
lemma mk_section_list_Some:
  "pt_mk_section_list E s a v w = (Some n, w') \<Longrightarrow> n = \<lparr>msec = pt_msec_init s a v, mapped = False\<rparr>"
  by (auto simp: pt_mk_section_list_def split: prod.splits bool.splits sum.splits)

lemma clone_result:
  assumes "pt_image_clone E l m b e w = (st, l', w')"
  shows "(\<exists>err. st = Inl err \<and> l' = l) \<or>
         (st = ok \<and> (\<exists>s. l' = \<lparr>msec = pt_msec_init s (Some (msec_asid m)) b, mapped = False\<rparr> # l
                         \<and> sec_size s = e - b))"
  using assms
  by (auto simp: pt_image_clone_def Let_def pt_section_clone_def pt_msec_asid_def
           split: prod.splits sum.splits option.splits if_splits dest!: mk_section_list_Some)

lemma replace_result:
  assumes "pt_image_add_replace E nxt cur b e w = (st, nxt', cur', w')"
  shows "msec cur' = msec cur \<and> \<not> pt_section_list.mapped cur' \<and>
         (\<exists>cl. nxt' = cl @ nxt \<and>
            (\<forall>c\<in>set cl. msec_asid (msec c) = msec_asid (msec cur) \<and> \<not> overlaps b e c))"
proof -
  let ?m = "msec cur"
  obtain st1 n1 w1 where c1: "(if pt_msec_begin ?m < b then pt_image_clone E nxt ?m (pt_msec_begin ?m) b
      (if pt_section_list.mapped cur then snd (pt_section_unmap E (msec_section ?m) w) else w)
      else (ok, nxt, (if pt_section_list.mapped cur then snd (pt_section_unmap E (msec_section ?m) w) else w))) = (st1, n1, w1)"
    by (metis prod_cases3)
  have n1: "\<exists>cl. n1 = cl @ nxt \<and> (\<forall>c\<in>set cl. msec_asid (msec c) = msec_asid ?m \<and> \<not> overlaps b e c)"
  proof (cases "pt_msec_begin ?m < b")
    case True
    with c1 have "pt_image_clone E nxt ?m (pt_msec_begin ?m) b
      (if pt_section_list.mapped cur then snd (pt_section_unmap E (msec_section ?m) w) else w) = (st1, n1, w1)"
      by simp
    from clone_result[OF this] show ?thesis
      by (auto simp: overlaps_def pt_msec_init_def pt_msec_end_def pt_msec_begin_def pt_section_size_def)
  next
    case False with c1 show ?thesis by auto
  qed
  show ?thesis
  proof (cases st1)
    case (Inl err)
    with assms c1 have "nxt' = n1" "cur' = (if pt_section_list.mapped cur then cur\<lparr>pt_section_list.mapped := False\<rparr> else cur)"
      by (auto simp: pt_image_add_replace_def Let_def)
    with n1 show ?thesis by auto
  next
    case (Inr u)
    obtain st2 n2 w2 where c2: "(if e < pt_msec_end ?m then pt_image_clone E n1 ?m e (pt_msec_end ?m) w1 else (ok, n1, w1)) = (st2, n2, w2)"
      by (metis prod_cases3)
    from assms c1 c2 Inr have r: "nxt' = n2" "cur' = (if pt_section_list.mapped cur then cur\<lparr>pt_section_list.mapped := False\<rparr> else cur)"
      by (auto simp: pt_image_add_replace_def Let_def)
    have "\<exists>cl. n2 = cl @ n1 \<and> (\<forall>c\<in>set cl. msec_asid (msec c) = msec_asid ?m \<and> \<not> overlaps b e c)"
    proof (cases "e < pt_msec_end ?m")
      case True
      with c2 have "pt_image_clone E n1 ?m e (pt_msec_end ?m) w1 = (st2, n2, w2)"
        by simp
      from clone_result[OF this] show ?thesis
        by (auto simp: overlaps_def pt_msec_init_def pt_msec_end_def pt_msec_begin_def pt_section_size_def)
    next
      case False with c2 show ?thesis by auto
    qed
    with n1 r show ?thesis by auto
  qed
qed



lemma loop_cases:
  obtains (failed) err where "pt_msec_matches_asid E (msec c) a = Inl err"
  | (skip) "skips E a b e c"
  | (conflict) "conflicts E a b e c"
  by (cases "pt_msec_matches_asid E (msec c) a") (auto simp: skips_def conflicts_def)

lemma loop_failed_step:
  "pt_msec_matches_asid E (msec c) a = Inl err \<Longrightarrow>
   pt_image_add_loop E s a b e pre nxt removed (c # rest) w
     = (Walk_failed err, pre, c # rest, nxt, removed, w)"
  by simp

lemma loop_skip_step:
  "skips E a b e c \<Longrightarrow>
   pt_image_add_loop E s a b e pre nxt removed (c # rest) w
     = pt_image_add_loop E s a b e (pre @ [c]) nxt removed rest w"
  by (auto simp: skips_def overlaps_def split: sum.splits bool.splits)

lemma loop_conflict_step:
  "conflicts E a b e c \<Longrightarrow>
   pt_image_add_loop E s a b e pre nxt removed (c # rest) w
     = (case pt_image_add_identical s (msec c) b e nxt removed of
          Some x \<Rightarrow> (x, pre, c # rest, nxt, removed, w)
        | None \<Rightarrow>
            (case pt_image_add_replace E nxt c b e w of
               (Inl err, nxt1, cur, w1) \<Rightarrow> (Walk_failed err, pre, rest, nxt1, cur # removed, w1)
             | (Inr u, nxt1, cur, w1) \<Rightarrow>
                 pt_image_add_loop E s a b e pre nxt1 (cur # removed) rest w1))"
  by (auto simp: conflicts_def overlaps_def split: sum.splits bool.splits)

declare pt_image_add_loop.simps(2) [simp del]

lemma replace_cur:
  assumes "pt_image_add_replace E nxt cur b e w = (st, nxt', cur', w')"
  shows "cur' = unmapped cur"
proof -
  have "cur' = (if pt_section_list.mapped cur then cur\<lparr>pt_section_list.mapped := False\<rparr> else cur)"
    using assms
    by (auto simp: pt_image_add_replace_def Let_def split: prod.splits sum.splits)
  then show ?thesis by (cases cur) (auto simp: unmapped_def)
qed

lemma skips_excludes_conflicts: "skips E a b e l \<Longrightarrow> \<not> conflicts E a b e l"
  by (auto simp: skips_def conflicts_def)

lemma add_loop_shape:
  assumes "pt_image_add_loop E s a b e pre nxt removed xs w = (x, pre', rest', nxt', removed', w')"
  shows "\<exists>A. xs = A @ rest' \<and>
           pre' = pre @ filter (Not \<circ> conflicts E a b e) A \<and>
           removed' = rev (map unmapped (filter (conflicts E a b e) A)) @ removed"
  using assms
proof (induction xs arbitrary: pre nxt removed w)
  case Nil
  then show ?case by auto
next
  case (Cons c rest)
  show ?case
  proof (cases rule: loop_cases[where E=E and c=c and a=a and b=b and e=e])
    case (failed err)
    with Cons.prems have "rest' = c # rest" "pre' = pre" "removed' = removed"
      by (auto simp: loop_failed_step)
    then have "c # rest = [] @ rest' \<and> pre' = pre @ filter (Not \<circ> conflicts E a b e) [] \<and>
           removed' = rev (map unmapped (filter (conflicts E a b e) [])) @ removed" by simp
    then show ?thesis by blast
  next
    case skip
    with Cons.prems have "pt_image_add_loop E s a b e (pre @ [c]) nxt removed rest w
        = (x, pre', rest', nxt', removed', w')"
      by (simp add: loop_skip_step)
    from Cons.IH[OF this] obtain A where
      A: "rest = A @ rest'" "pre' = (pre @ [c]) @ filter (Not \<circ> conflicts E a b e) A"
         "removed' = rev (map unmapped (filter (conflicts E a b e) A)) @ removed" by blast
    from skip have nc: "\<not> conflicts E a b e c" by (rule skips_excludes_conflicts)
    from A nc have "c # rest = (c # A) @ rest' \<and>
           pre' = pre @ filter (Not \<circ> conflicts E a b e) (c # A) \<and>
           removed' = rev (map unmapped (filter (conflicts E a b e) (c # A))) @ removed" by simp
    then show ?thesis by blast
  next
    case conflict
    note step = loop_conflict_step[OF conflict, of s pre nxt removed rest w]
    show ?thesis
    proof (cases "pt_image_add_identical s (msec c) b e nxt removed")
      case (Some y)
      with Cons.prems step have "rest' = c # rest" "pre' = pre" "removed' = removed" by auto
      then have "c # rest = [] @ rest' \<and> pre' = pre @ filter (Not \<circ> conflicts E a b e) [] \<and>
           removed' = rev (map unmapped (filter (conflicts E a b e) [])) @ removed" by simp
      then show ?thesis by blast
    next
      case None
      obtain st nxt1 cur w1 where r: "pt_image_add_replace E nxt c b e w = (st, nxt1, cur, w1)"
        by (metis prod_cases4)
      from replace_cur[OF r] have cur: "cur = unmapped c" .
      show ?thesis
      proof (cases st)
        case (Inl err)
        with Cons.prems step None r have "pre' = pre" "rest' = rest" "removed' = cur # removed"
          by auto
        with cur conflict have "c # rest = [c] @ rest' \<and>
           pre' = pre @ filter (Not \<circ> conflicts E a b e) [c] \<and>
           removed' = rev (map unmapped (filter (conflicts E a b e) [c])) @ removed" by simp
        then show ?thesis by blast
      next
        case (Inr u)
        with Cons.prems step None r have "pt_image_add_loop E s a b e pre nxt1 (cur # removed) rest w1
          = (x, pre', rest', nxt', removed', w')" by auto
        from Cons.IH[OF this] obtain A where
          A: "rest = A @ rest'" "pre' = pre @ filter (Not \<circ> conflicts E a b e) A"
             "removed' = rev (map unmapped (filter (conflicts E a b e) A)) @ cur # removed" by blast
        with cur conflict have "c # rest = (c # A) @ rest' \<and>
           pre' = pre @ filter (Not \<circ> conflicts E a b e) (c # A) \<and>
           removed' = rev (map unmapped (filter (conflicts E a b e) (c # A))) @ removed" by simp
        then show ?thesis by blast
      qed
    qed
  qed
qed

lemma matches_same_asid:
  "msec_asid m = msec_asid m' \<Longrightarrow> pt_msec_matches_asid E m a = pt_msec_matches_asid E m' a"
  by (simp add: pt_msec_matches_asid_def split: option.splits)

lemma clone_skips:
  "conflicts E a b e cur \<Longrightarrow> msec_asid (msec c) = msec_asid (msec cur) \<Longrightarrow> \<not> overlaps b e c
     \<Longrightarrow> skips E a b e c"
  using matches_same_asid[of "msec c" "msec cur" E a]
  by (simp add: conflicts_def skips_def)

lemma add_loop_all_skip:
  "\<forall>x\<in>set A. skips E a b e x \<Longrightarrow>
   pt_image_add_loop E s a b e pre nxt removed (A @ ys) w
     = pt_image_add_loop E s a b e (pre @ A) nxt removed ys w"
  by (induction A arbitrary: pre) (simp_all add: loop_skip_step)

lemma add_loop_done:
  assumes "pt_image_add_loop E s a b e pre nxt removed xs w = (Walk_done, pre', rest', nxt', removed', w')"
  shows "rest' = [] \<and> (\<exists>kept cl. pre' = pre @ kept \<and> nxt' = cl @ nxt \<and>
            (\<forall>l\<in>set (kept @ cl). skips E a b e l))"
  using assms
proof (induction xs arbitrary: pre nxt removed w)
  case Nil
  then show ?case by auto
next
  case (Cons c rest)
  show ?case
  proof (cases rule: loop_cases[where E=E and c=c and a=a and b=b and e=e])
    case (failed err)
    with Cons.prems show ?thesis by (auto simp: loop_failed_step)
  next
    case skip
    with Cons.prems have "pt_image_add_loop E s a b e (pre @ [c]) nxt removed rest w
        = (Walk_done, pre', rest', nxt', removed', w')"
      by (simp add: loop_skip_step)
    from Cons.IH[OF this] obtain kept cl where
      "rest' = []" "pre' = (pre @ [c]) @ kept" "nxt' = cl @ nxt" "\<forall>l\<in>set (kept @ cl). skips E a b e l"
      by blast
    with skip have "pre' = pre @ (c # kept) \<and> nxt' = cl @ nxt \<and> (\<forall>l\<in>set ((c # kept) @ cl). skips E a b e l)"
      by auto
    with \<open>rest' = []\<close> show ?thesis by blast
  next
    case conflict
    note step = loop_conflict_step[OF conflict, of s pre nxt removed rest w]
    show ?thesis
    proof (cases "pt_image_add_identical s (msec c) b e nxt removed")
      case (Some y)
      with Cons.prems step show ?thesis
        by (auto simp: pt_image_add_identical_def split: if_splits option.splits)
    next
      case None
      obtain st nxt1 cur w1 where r: "pt_image_add_replace E nxt c b e w = (st, nxt1, cur, w1)"
        by (metis prod_cases4)
      from replace_result[OF r] obtain cl1 where cl1: "nxt1 = cl1 @ nxt"
        "\<forall>x\<in>set cl1. msec_asid (msec x) = msec_asid (msec c) \<and> \<not> overlaps b e x"
        by blast
      show ?thesis
      proof (cases st)
        case (Inl err)
        with Cons.prems step None r show ?thesis by auto
      next
        case (Inr u)
        with Cons.prems step None r have "pt_image_add_loop E s a b e pre nxt1 (cur # removed) rest w1
          = (Walk_done, pre', rest', nxt', removed', w')" by auto
        from Cons.IH[OF this] obtain kept cl where
          k: "rest' = []" "pre' = pre @ kept" "nxt' = cl @ nxt1" "\<forall>l\<in>set (kept @ cl). skips E a b e l"
          by blast
        from cl1 conflict have "\<forall>x\<in>set cl1. skips E a b e x"
          by (auto intro: clone_skips)
        with k cl1 have "pre' = pre @ kept \<and> nxt' = (cl @ cl1) @ nxt \<and> (\<forall>l\<in>set (kept @ (cl @ cl1)). skips E a b e l)"
          by auto
        with k(1) show ?thesis by blast
      qed
    qed
  qed
qed

lemma add_loop_identical:
  assumes "pt_image_add_loop E s a b e pre nxt removed xs w = (Walk_identical, pre', rest', nxt', removed', w')"
  shows "removed = [] \<and> removed' = [] \<and> nxt' = nxt \<and> w' = w \<and>
         (\<exists>A l B. xs = A @ l # B \<and> pre' = pre @ A \<and> rest' = l # B \<and>
            (\<forall>x\<in>set A. skips E a b e x) \<and> conflicts E a b e l \<and>
            pt_msec_begin (msec l) = b \<and> pt_msec_end (msec l) = e \<and>
            sec_filename (msec_section (msec l)) = sec_filename s)"
  using assms
proof (induction xs arbitrary: pre nxt removed w)
  case Nil
  then show ?case by auto
next
  case (Cons c rest)
  show ?case
  proof (cases rule: loop_cases[where E=E and c=c and a=a and b=b and e=e])
    case (failed err)
    with Cons.prems show ?thesis by (auto simp: loop_failed_step)
  next
    case skip
    with Cons.prems have "pt_image_add_loop E s a b e (pre @ [c]) nxt removed rest w
        = (Walk_identical, pre', rest', nxt', removed', w')"
      by (simp add: loop_skip_step)
    from Cons.IH[OF this] obtain A l B where
      k: "removed = []" "removed' = []" "nxt' = nxt" "w' = w" "rest = A @ l # B" "pre' = (pre @ [c]) @ A"
         "rest' = l # B" "\<forall>x\<in>set A. skips E a b e x" "conflicts E a b e l"
         "pt_msec_begin (msec l) = b" "pt_msec_end (msec l) = e"
         "sec_filename (msec_section (msec l)) = sec_filename s"
      by blast
    with skip have "c # rest = (c # A) @ l # B \<and> pre' = pre @ (c # A) \<and> rest' = l # B \<and>
            (\<forall>x\<in>set (c # A). skips E a b e x) \<and> conflicts E a b e l \<and>
            pt_msec_begin (msec l) = b \<and> pt_msec_end (msec l) = e \<and>
            sec_filename (msec_section (msec l)) = sec_filename s"
      by auto
    with k(1-4) show ?thesis by blast
  next
    case conflict
    note step = loop_conflict_step[OF conflict, of s pre nxt removed rest w]
    show ?thesis
    proof (cases "pt_image_add_identical s (msec c) b e nxt removed")
      case (Some y)
      with Cons.prems step have y: "y = Walk_identical" "pre' = pre" "rest' = c # rest" "nxt' = nxt"
        "removed' = removed" "w' = w" by auto
      with Some have "removed = [] \<and> pt_msec_begin (msec c) = b \<and> pt_msec_end (msec c) = e \<and>
            sec_filename (msec_section (msec c)) = sec_filename s"
        by (auto simp: pt_image_add_identical_def pt_section_filename_def split: if_splits)
      with y conflict have "removed = [] \<and> removed' = [] \<and> nxt' = nxt \<and> w' = w \<and>
         c # rest = [] @ c # rest \<and> pre' = pre @ [] \<and> rest' = c # rest \<and>
            (\<forall>x\<in>set []. skips E a b e x) \<and> conflicts E a b e c \<and>
            pt_msec_begin (msec c) = b \<and> pt_msec_end (msec c) = e \<and>
            sec_filename (msec_section (msec c)) = sec_filename s"
        by simp
      then show ?thesis by blast
    next
      case None
      obtain st nxt1 cur w1 where r: "pt_image_add_replace E nxt c b e w = (st, nxt1, cur, w1)"
        by (metis prod_cases4)
      show ?thesis
      proof (cases st)
        case (Inl err)
        with Cons.prems step None r show ?thesis by auto
      next
        case (Inr u)
        with Cons.prems step None r have "pt_image_add_loop E s a b e pre nxt1 (cur # removed) rest w1
          = (Walk_identical, pre', rest', nxt', removed', w')" by auto
        from Cons.IH[OF this] show ?thesis by simp
      qed
    qed
  qed
qed

lemma add_loop_hits_identical:
  assumes "\<forall>x\<in>set A. skips E a b e x" and "conflicts E a b e l"
    and "pt_msec_begin (msec l) = b" and "pt_msec_end (msec l) = e"
    and "sec_filename (msec_section (msec l)) = sec_filename s"
  shows "pt_image_add_loop E s a b e pre [n] [] (A @ l # B) w
           = (Walk_identical, pre @ A, l # B, [n], [], w)"
  using assms
  by (simp add: add_loop_all_skip loop_conflict_step pt_image_add_identical_def
        pt_section_filename_def)

lemma mk_section_list_ok:
  assumes "no_faults_after E w"
  shows "pt_mk_section_list E s a v w =
           (Some \<lparr>msec = pt_msec_init s a v, mapped = False\<rparr>,
            logged (Get (sec_addr s)) None
              ((logged Malloc None w)\<lparr>ucount := (ucount w)(sec_addr s := Suc (ucount w (sec_addr s)))\<rparr>))"
  using assms
  by (simp add: pt_mk_section_list_def malloc_def injected_def logged_def pt_section_get_def
        no_faults_after_def)

lemma add_dedup:
  assumes nf: "no_faults_after E w"
    and xs: "sections img = A @ l # B"
    and A: "\<forall>x\<in>set A. skips E a vaddr (vaddr + sec_size s) x"
    and l: "conflicts E a vaddr (vaddr + sec_size s) l"
      "pt_msec_begin (msec l) = vaddr" "pt_msec_end (msec l) = vaddr + sec_size s"
      "sec_filename (msec_section (msec l)) = sec_filename s"
  shows "fst (pt_image_add E (Some img) (Some s) a vaddr w) = ok \<and>
         fst (snd (pt_image_add E (Some img) (Some s) a vaddr w)) = Some img \<and>
         ucount (snd (snd (pt_image_add E (Some img) (Some s) a vaddr w))) = ucount w"
proof -
  have "pt_image_add E (Some img) (Some s) a vaddr w =
     (ok, Some (img\<lparr>sections := A @ l # B\<rparr>),
      pt_section_list_free E \<lparr>msec = pt_msec_init s a vaddr, mapped = False\<rparr>
        (logged (Get (sec_addr s)) None
              ((logged Malloc None w)\<lparr>ucount := (ucount w)(sec_addr s := Suc (ucount w (sec_addr s)))\<rparr>)))"
    by (simp add: pt_image_add_def mk_section_list_ok[OF nf] xs pt_section_size_def
          add_loop_hits_identical[OF A l])
  moreover have "img\<lparr>sections := A @ l # B\<rparr> = img"
    using xs by (metis pt_image.surjective pt_image.update_convs(2))
  moreover have "ucount (pt_section_list_free E \<lparr>msec = pt_msec_init s a vaddr, mapped = False\<rparr>
        (logged (Get (sec_addr s)) None
              ((logged Malloc None w)\<lparr>ucount := (ucount w)(sec_addr s := Suc (ucount w (sec_addr s)))\<rparr>))) = ucount w"
    using nf
    by (auto simp: pt_section_list_free_def pt_section_put_def injected_def logged_def
          no_faults_after_def pt_msec_init_def fun_eq_iff)
  ultimately show ?thesis by simp
qed



subsection \<open>The add as a whole\<close>

lemma add_result_cases:
  assumes "pt_image_add E (Some img) (Some s) a vaddr w = (st, image', w')"
  obtains (nomem) "st = Inl pte_nomem" "image' = Some img"
  | (walk) n w1 x pre rest nxt removed w2 where
      "pt_mk_section_list E s a vaddr w = (Some n, w1)"
      "pt_image_add_loop E s a vaddr (vaddr + pt_section_size s) [] [n] [] (sections img) w1
         = (x, pre, rest, nxt, removed, w2)"
      "x = Walk_identical \<Longrightarrow> st = ok \<and> image' = Some (img\<lparr>sections := pre @ rest\<rparr>)"
      "\<And>e. x = Walk_failed e \<Longrightarrow> st = Inl e \<and> image' = Some (img\<lparr>sections := pre @ rest @ removed\<rparr>)"
      "x = Walk_done \<Longrightarrow> st = ok \<and> image' = Some (img\<lparr>sections := pre @ rest @ nxt\<rparr>)
          \<and> w' = pt_section_list_free_tail E removed w2"
proof -
  obtain n0 w1 where mk: "pt_mk_section_list E s a vaddr w = (n0, w1)" by (metis prod.exhaust)
  show ?thesis
  proof (cases n0)
    case None
    with assms mk have "st = Inl pte_nomem" "image' = Some img"
      by (auto simp: pt_image_add_def)
    then show ?thesis by (rule nomem)
  next
    case (Some n)
    obtain x pre rest nxt removed w2 where
      lp: "pt_image_add_loop E s a vaddr (vaddr + pt_section_size s) [] [n] [] (sections img) w1
         = (x, pre, rest, nxt, removed, w2)" by (metis prod_cases6)
    show ?thesis
    proof (rule walk[OF _ lp])
      show "pt_mk_section_list E s a vaddr w = (Some n, w1)" using mk Some by simp
    next
      assume "x = Walk_identical"
      with assms mk Some lp show "st = ok \<and> image' = Some (img\<lparr>sections := pre @ rest\<rparr>)"
        by (auto simp: pt_image_add_def)
    next
      fix e assume "x = Walk_failed e"
      with assms mk Some lp show "st = Inl e \<and> image' = Some (img\<lparr>sections := pre @ rest @ removed\<rparr>)"
        by (auto simp: pt_image_add_def)
    next
      assume "x = Walk_done"
      with assms mk Some lp show "st = ok \<and> image' = Some (img\<lparr>sections := pre @ rest @ nxt\<rparr>)
         \<and> w' = pt_section_list_free_tail E removed w2"
        by (auto simp: pt_image_add_def)
    qed
  qed
qed

text \<open>
  Claim C1, as amended. When pt\_image\_add returns an error, the image keeps its name, its
  cache size and its callback, and its list is the old list changed as follows: in a leading
  part \<open>A\<close> of the old list (the part the loop went through) the elements whose asid
  matches and whose range overlaps the new section are taken out; they are re-added at the
  tail of the list, the latest removed first, with their mapped flag cleared. Every other
  element of the list keeps its place among the others and its mapped flag. So the list
  order and the mapped flags are not always those before the call. With a NULL section the
  image is left as it is.
\<close>

theorem pt_image_add_failure:
  "pt_image_add E None section_p a vaddr w = (Inl pte_internal, None, w) \<and>
   pt_image_add E (Some img) None a vaddr w = (Inl pte_internal, Some img, w) \<and>
   (fst (pt_image_add E (Some img) (Some s) a vaddr w) = Inl err \<longrightarrow>
      (\<exists>A B img'. sections img = A @ B \<and>
         fst (snd (pt_image_add E (Some img) (Some s) a vaddr w)) = Some img' \<and>
         sections img' =
           filter (Not \<circ> conflicts E a vaddr (vaddr + sec_size s)) A @ B @
           rev (map unmapped (filter (conflicts E a vaddr (vaddr + sec_size s)) A)) \<and>
         name img' = name img \<and> cache img' = cache img \<and>
         readmem_callback img' = readmem_callback img \<and>
         readmem_context img' = readmem_context img))"
proof (intro conjI impI)
  show "pt_image_add E None section_p a vaddr w = (Inl pte_internal, None, w)"
    by (simp add: pt_image_add_def)
  show "pt_image_add E (Some img) None a vaddr w = (Inl pte_internal, Some img, w)"
    by (simp add: pt_image_add_def)
next
  assume f: "fst (pt_image_add E (Some img) (Some s) a vaddr w) = Inl err"
  let ?P = "\<lambda>A B img'. sections img = A @ B \<and>
         fst (snd (pt_image_add E (Some img) (Some s) a vaddr w)) = Some img' \<and>
         sections img' =
           filter (Not \<circ> conflicts E a vaddr (vaddr + sec_size s)) A @ B @
           rev (map unmapped (filter (conflicts E a vaddr (vaddr + sec_size s)) A)) \<and>
         name img' = name img \<and> cache img' = cache img \<and>
         readmem_callback img' = readmem_callback img \<and>
         readmem_context img' = readmem_context img"
  obtain st image' w' where r: "pt_image_add E (Some img) (Some s) a vaddr w = (st, image', w')"
    by (metis prod_cases3)
  with f have st: "st = Inl err" by simp
  from r show "\<exists>A B img'. ?P A B img'"
  proof (cases rule: add_result_cases)
    case nomem
    with r have "?P [] (sections img) img" by simp
    then show ?thesis by blast
  next
    case (walk n w1 x pre rest nxt removed w2)
    from st walk(3,5) obtain e where x: "x = Walk_failed e" by (cases x) auto
    with walk(4) have img': "image' = Some (img\<lparr>sections := pre @ rest @ removed\<rparr>)" by simp
    from add_loop_shape[OF walk(2)] obtain A where
      A: "sections img = A @ rest"
         "pre = filter (Not \<circ> conflicts E a vaddr (vaddr + pt_section_size s)) A"
         "removed = rev (map unmapped (filter (conflicts E a vaddr (vaddr + pt_section_size s)) A))"
      by auto
    with img' r have "?P A rest (img\<lparr>sections := pre @ rest @ removed\<rparr>)"
      by (simp add: pt_section_size_def)
    then show ?thesis by blast
  qed
qed

lemma region_conflicts:
  assumes "region_entry a vaddr s l" "vaddr < vaddr + sec_size s"
  shows "conflicts E (Some a) vaddr (vaddr + sec_size s) l"
  using assms
  by (auto simp: region_entry_def conflicts_def overlaps_def pt_msec_matches_asid_def
        pt_section_size_def)

lemma skips_not_conflicts: "skips E (Some a) b e l = (\<not> conflicts E (Some a) b e l)"
  by (auto simp: skips_def conflicts_def pt_msec_matches_asid_def)

lemma new_entry_region:
  "region_entry a vaddr s \<lparr>msec = pt_msec_init s (Some a) vaddr, mapped = False\<rparr>"
  by (simp add: region_entry_def pt_msec_init_def pt_asid_match_def field_match_def
        pt_msec_begin_def pt_msec_end_def)



lemma region_from_identical:
  assumes "conflicts E (Some a) vaddr (vaddr + sec_size s) l"
    "pt_msec_begin (msec l) = vaddr" "pt_msec_end (msec l) = vaddr + sec_size s"
    "sec_filename (msec_section (msec l)) = sec_filename s"
  shows "region_entry a vaddr s l"
  using assms
  by (simp add: region_entry_def conflicts_def pt_msec_matches_asid_def pt_section_size_def
        pt_section_filename_def)

lemma add_twice_aux:
  assumes r: "pt_image_add E (Some img) (Some s) (Some a) vaddr w = (ok, image', w1)"
    and nf: "no_faults_after E w1"
    and ne: "vaddr < vaddr + sec_size s"
    and s2: "sec_filename s2 = sec_filename s" "sec_size s2 = sec_size s"
  shows "\<exists>img1. image' = Some img1 \<and>
           fst (pt_image_add E (Some img1) (Some s2) (Some a) vaddr w1) = ok \<and>
           fst (snd (pt_image_add E (Some img1) (Some s2) (Some a) vaddr w1)) = Some img1 \<and>
           ucount (snd (snd (pt_image_add E (Some img1) (Some s2) (Some a) vaddr w1))) = ucount w1 \<and>
           (\<exists>l\<in>set (sections img1). region_entry a vaddr s l) \<and>
           ((\<forall>l\<in>set (sections img). \<not> region_entry a vaddr s l) \<longrightarrow>
              length (filter (region_entry a vaddr s) (sections img1)) = 1)"
  using r
proof (cases rule: add_result_cases)
  case nomem
  then show ?thesis by simp
next
  case (walk n w0 x pre rest nxt removed w2)
  show ?thesis
  proof (cases x)
    case (Walk_failed e)
    with walk(4) show ?thesis by simp
  next
    case Walk_identical
    with walk(3) have img': "image' = Some (img\<lparr>sections := pre @ rest\<rparr>)" by simp
    from add_loop_identical[OF walk(2)[unfolded Walk_identical]] obtain A l B where
      k: "sections img = A @ l # B" "pre = [] @ A" "rest = l # B"
         "\<forall>x\<in>set A. skips E (Some a) vaddr (vaddr + pt_section_size s) x"
         "conflicts E (Some a) vaddr (vaddr + pt_section_size s) l"
         "pt_msec_begin (msec l) = vaddr" "pt_msec_end (msec l) = vaddr + pt_section_size s"
         "sec_filename (msec_section (msec l)) = sec_filename s"
      by blast
    let ?i = "img\<lparr>sections := pre @ rest\<rparr>"
    have xs: "sections ?i = A @ l # B" using k by simp
    have reg: "region_entry a vaddr s l"
      using k(5-8) by (intro region_from_identical[where E=E]) (simp_all add: pt_section_size_def)
    have l_in: "l \<in> set (sections img)" using k(1) by simp
    have "fst (pt_image_add E (Some ?i) (Some s2) (Some a) vaddr w1) = ok \<and>
         fst (snd (pt_image_add E (Some ?i) (Some s2) (Some a) vaddr w1)) = Some ?i \<and>
         ucount (snd (snd (pt_image_add E (Some ?i) (Some s2) (Some a) vaddr w1))) = ucount w1"
      using k(4-8) s2 by (intro add_dedup[OF nf xs]) (simp_all add: pt_section_size_def)
    moreover have "\<exists>l\<in>set (sections ?i). region_entry a vaddr s l"
      using reg xs by auto
    moreover have "(\<forall>l\<in>set (sections img). \<not> region_entry a vaddr s l) \<longrightarrow>
              length (filter (region_entry a vaddr s) (sections ?i)) = 1"
      using reg l_in by blast
    ultimately show ?thesis using img' by blast
  next
    case Walk_done
    with walk(5) have img': "image' = Some (img\<lparr>sections := pre @ rest @ nxt\<rparr>)" by simp
    from add_loop_done[OF walk(2)[unfolded Walk_done]] obtain kept cl where
      k: "rest = []" "pre = [] @ kept" "nxt = cl @ [n]"
         "\<forall>l\<in>set (kept @ cl). skips E (Some a) vaddr (vaddr + pt_section_size s) l"
      by blast
    have n: "n = \<lparr>msec = pt_msec_init s (Some a) vaddr, mapped = False\<rparr>"
      using walk(1) by (rule mk_section_list_Some)
    let ?i = "img\<lparr>sections := pre @ rest @ nxt\<rparr>"
    have xs: "sections ?i = (kept @ cl) @ n # []" using k by simp
    have reg: "region_entry a vaddr s n" unfolding n by (rule new_entry_region)
    have conf: "conflicts E (Some a) vaddr (vaddr + sec_size s) n"
      using reg ne by (rule region_conflicts)
    have sk: "\<forall>l\<in>set (kept @ cl). \<not> region_entry a vaddr s l"
      using k(4) region_conflicts[OF _ ne, of a _ E]
      by (auto simp: skips_not_conflicts pt_section_size_def)
    have "fst (pt_image_add E (Some ?i) (Some s2) (Some a) vaddr w1) = ok \<and>
         fst (snd (pt_image_add E (Some ?i) (Some s2) (Some a) vaddr w1)) = Some ?i \<and>
         ucount (snd (snd (pt_image_add E (Some ?i) (Some s2) (Some a) vaddr w1))) = ucount w1"
      using k(4) conf reg s2
      by (intro add_dedup[OF nf xs]) (simp_all add: pt_section_size_def region_entry_def pt_section_filename_def)
    moreover have "\<exists>l\<in>set (sections ?i). region_entry a vaddr s l"
      using reg xs by auto
    moreover have "length (filter (region_entry a vaddr s) (sections ?i)) = 1"
      using sk reg by (simp add: xs del: append_assoc)
    ultimately show ?thesis using img' by blast
  qed
qed

text \<open>
  Claim C4, as amended. If an add of a section, with an asid, at a range that does not wrap
  around has succeeded and no call fails afterwards, a second add at the same vaddr with the
  same asid and a section of the same file name and size returns success, leaves the image
  as the first add left it, and leaves the reference counts as they were. The image then
  holds an entry for the region; it holds exactly one if it held none before the first
  add.
\<close>

theorem pt_image_add_twice:
  assumes "fst (pt_image_add E (Some img) (Some s) (Some a) vaddr w) = ok"
    and "no_faults_after E (snd (snd (pt_image_add E (Some img) (Some s) (Some a) vaddr w)))"
    and "vaddr < vaddr + sec_size s"
    and "sec_filename s2 = sec_filename s" and "sec_size s2 = sec_size s"
  shows "\<exists>img1. fst (snd (pt_image_add E (Some img) (Some s) (Some a) vaddr w)) = Some img1 \<and>
           fst (pt_image_add E (Some img1) (Some s2) (Some a) vaddr
                  (snd (snd (pt_image_add E (Some img) (Some s) (Some a) vaddr w)))) = ok \<and>
           fst (snd (pt_image_add E (Some img1) (Some s2) (Some a) vaddr
                  (snd (snd (pt_image_add E (Some img) (Some s) (Some a) vaddr w))))) = Some img1 \<and>
           ucount (snd (snd (pt_image_add E (Some img1) (Some s2) (Some a) vaddr
                  (snd (snd (pt_image_add E (Some img) (Some s) (Some a) vaddr w))))))
             = ucount (snd (snd (pt_image_add E (Some img) (Some s) (Some a) vaddr w))) \<and>
           (\<exists>l\<in>set (sections img1). region_entry a vaddr s l) \<and>
           ((\<forall>l\<in>set (sections img). \<not> region_entry a vaddr s l) \<longrightarrow>
              length (filter (region_entry a vaddr s) (sections img1)) = 1)"
proof -
  obtain st image' w1 where r: "pt_image_add E (Some img) (Some s) (Some a) vaddr w = (st, image', w1)"
    by (metis prod_cases3)
  with assms(1) have r': "pt_image_add E (Some img) (Some s) (Some a) vaddr w = (ok, image', w1)"
    by simp
  from assms(2) r have nf: "no_faults_after E w1" by simp
  from add_twice_aux[OF r' nf assms(3-5)] show ?thesis
    by (simp add: r')
qed

text \<open>
  Claim C10, as amended. pt\_image\_add returns the internal error when the image or the
  section is NULL; its guard does not test the asid. With an image, a section and a NULL
  asid it creates the element, and when no call fails: if the loop passes over every
  element of the image (there is none, or the comparison of asids says no match, or the
  element does not overlap), the add succeeds and puts the new element at the tail; if the
  image has an element and the comparison of an asid with the NULL asid fails with an
  error, the add returns that error and leaves the image as it is.
\<close>

theorem pt_image_add_null_asid:
  "pt_image_add E None section_p a vaddr w = (Inl pte_internal, None, w) \<and>
   pt_image_add E image_p None a vaddr w = (Inl pte_internal, image_p, w) \<and>
   (no_faults_after E w \<and> (\<forall>l\<in>set (sections img). skips E None vaddr (vaddr + sec_size s) l) \<longrightarrow>
      fst (pt_image_add E (Some img) (Some s) None vaddr w) = ok \<and>
      fst (snd (pt_image_add E (Some img) (Some s) None vaddr w))
        = Some (img\<lparr>sections := sections img @ [\<lparr>msec = pt_msec_init s None vaddr, mapped = False\<rparr>]\<rparr>)) \<and>
   (no_faults_after E w \<and> sections img \<noteq> [] \<and> match_absent E = Inl e \<longrightarrow>
      fst (pt_image_add E (Some img) (Some s) None vaddr w) = Inl e \<and>
      fst (snd (pt_image_add E (Some img) (Some s) None vaddr w)) = Some img)"
proof (intro conjI impI)
  show "pt_image_add E None section_p a vaddr w = (Inl pte_internal, None, w)"
    by (simp add: pt_image_add_def)
  show "pt_image_add E image_p None a vaddr w = (Inl pte_internal, image_p, w)"
    by (simp add: pt_image_add_def split: option.splits)
next
  assume h: "no_faults_after E w \<and> (\<forall>l\<in>set (sections img). skips E None vaddr (vaddr + sec_size s) l)"
  then have nf: "no_faults_after E w"
    and sk: "\<forall>l\<in>set (sections img). skips E None vaddr (vaddr + sec_size s) l" by auto
  have lp: "pt_image_add_loop E s None vaddr (vaddr + sec_size s) [] nxt [] (sections img) w1
      = (Walk_done, sections img, [], nxt, [], w1)" for nxt w1
    using add_loop_all_skip[OF sk, of s "[]" nxt "[]" "[]" w1] by simp
  show "fst (pt_image_add E (Some img) (Some s) None vaddr w) = ok"
    by (simp add: pt_image_add_def mk_section_list_ok[OF nf] pt_section_size_def lp)
  show "fst (snd (pt_image_add E (Some img) (Some s) None vaddr w))
        = Some (img\<lparr>sections := sections img @ [\<lparr>msec = pt_msec_init s None vaddr, mapped = False\<rparr>]\<rparr>)"
    by (simp add: pt_image_add_def mk_section_list_ok[OF nf] pt_section_size_def lp)
next
  assume h: "no_faults_after E w \<and> sections img \<noteq> [] \<and> match_absent E = Inl e"
  then have nf: "no_faults_after E w" and m: "match_absent E = Inl e" by auto
  from h obtain c rest where xs: "sections img = c # rest" by (cases "sections img") auto
  have lp: "pt_image_add_loop E s None vaddr (vaddr + sec_size s) [] nxt [] (sections img) w1
      = (Walk_failed e, [], sections img, nxt, [], w1)" for nxt w1
    unfolding xs by (rule loop_failed_step) (simp add: pt_msec_matches_asid_def m)
  show "fst (pt_image_add E (Some img) (Some s) None vaddr w) = Inl e"
    by (simp add: pt_image_add_def mk_section_list_ok[OF nf] pt_section_size_def lp)
  show "fst (snd (pt_image_add E (Some img) (Some s) None vaddr w)) = Some img"
    by (simp add: pt_image_add_def mk_section_list_ok[OF nf] pt_section_size_def lp)
qed

section \<open>Properties of pt\_image\_remove, pt\_image\_prune\_cache and pt\_image\_read\<close>

subsection \<open>Removal\<close>

lemma remove_loop_none:
  "\<forall>l\<in>set xs. \<not> removal_target s a vaddr l \<Longrightarrow>
   pt_image_remove_loop E s (Some a) vaddr xs w = (Inl pte_bad_image, xs, w)"
  by (induction xs) (auto simp: removal_target_def pt_msec_matches_asid_def split: bool.splits)

lemma remove_loop_first:
  "\<forall>x\<in>set A. \<not> removal_target s a vaddr x \<Longrightarrow> removal_target s a vaddr l \<Longrightarrow>
   pt_image_remove_loop E s (Some a) vaddr (A @ l # B) w = (ok, A @ B, pt_section_list_free E l w)"
  by (induction A) (auto simp: removal_target_def pt_msec_matches_asid_def split: bool.splits)

text \<open>
  Claim C7. With an image, a section and an asid, pt\_image\_remove returns the bad-image
  error and leaves image and store as they are when no element has a matching asid, the
  given section object and the given vaddr. Otherwise it unlinks the first such element in
  list order, frees it, keeps every other element in place, and returns success.
\<close>

theorem pt_image_remove_first:
  "((\<forall>l\<in>set (sections img). \<not> removal_target s a vaddr l) \<longrightarrow>
      pt_image_remove E (Some img) (Some s) (Some a) vaddr w = (Inl pte_bad_image, Some img, w)) \<and>
   (sections img = A @ l # B \<and> (\<forall>x\<in>set A. \<not> removal_target s a vaddr x) \<and>
    removal_target s a vaddr l \<longrightarrow>
      pt_image_remove E (Some img) (Some s) (Some a) vaddr w
        = (ok, Some (img\<lparr>sections := A @ B\<rparr>), pt_section_list_free E l w))"
  by (auto simp: pt_image_remove_def remove_loop_none remove_loop_first)

subsection \<open>Pruning\<close>

lemma unmap_errors_append: "unmap_errors (xs @ ys) = unmap_errors xs @ unmap_errors ys"
  by (induction xs rule: unmap_errors.induct) auto

lemma unmap_logs:
  "pt_section_unmap E s w = (r, w') \<Longrightarrow>
   trace w' = trace w @ [(Unmap (sec_addr s), case r of Inl e \<Rightarrow> Some e | Inr u \<Rightarrow> None)]"
  by (auto simp: pt_section_unmap_def logged_def split: option.splits if_splits)

lemma prune_loop_props:
  assumes "pt_image_prune_loop E c m st xs w = (xs', m', st', w')"
  shows "map msec xs' = map msec xs \<and>
         m' = m + of_nat (length (filter pt_section_list.mapped xs')) \<and>
         (\<exists>tr. trace w' = trace w @ tr \<and>
            st' = (if unmap_errors tr = [] then st else Inl (last (unmap_errors tr))) \<and>
            (unat m + length xs < 65536 \<longrightarrow>
               unat m + length (filter pt_section_list.mapped xs')
                 \<le> max (unat m) (unat c) + length (unmap_errors tr)))"
  using assms
proof (induction xs arbitrary: m st w xs' m' st' w')
  case Nil
  then show ?case by auto
next
  case (Cons l rest)
  show ?case
  proof (cases "pt_section_list.mapped l")
    case False
    obtain r1 m1 s1 w1 where r: "pt_image_prune_loop E c m st rest w = (r1, m1, s1, w1)"
      by (metis prod_cases4)
    with Cons.prems False have eq: "xs' = l # r1" "m' = m1" "st' = s1" "w' = w1" by auto
    from Cons.IH[OF r] eq False show ?thesis by auto
  next
    case True
    show ?thesis
    proof (cases "m + 1 \<le> c")
      case le: True
      obtain r1 m1 s1 w1 where r: "pt_image_prune_loop E c (m + 1) st rest w = (r1, m1, s1, w1)"
        by (metis prod_cases4)
      with Cons.prems True le have eq: "xs' = l # r1" "m' = m1" "st' = s1" "w' = w1" by auto
      from Cons.IH[OF r] obtain tr where
        ih: "map msec r1 = map msec rest" "m1 = m + 1 + of_nat (length (filter pt_section_list.mapped r1))"
          "trace w1 = trace w @ tr" "s1 = (if unmap_errors tr = [] then st else Inl (last (unmap_errors tr)))"
          "unat (m + 1) + length rest < 65536 \<longrightarrow>
               unat (m + 1) + length (filter pt_section_list.mapped r1)
                 \<le> max (unat (m + 1)) (unat c) + length (unmap_errors tr)"
        by blast
      have bound: "unat m + length (l # rest) < 65536 \<longrightarrow>
               unat m + length (filter pt_section_list.mapped (l # r1))
                 \<le> max (unat m) (unat c) + length (unmap_errors tr)"
      proof
        assume b: "unat m + length (l # rest) < 65536"
        then have um: "unat (m + 1) = unat m + 1"
          by (simp add: unat_word_ariths)
        from le have "unat (m + 1) \<le> unat c" by (simp add: word_le_nat_alt)
        with ih(5) b um True show "unat m + length (filter pt_section_list.mapped (l # r1))
                 \<le> max (unat m) (unat c) + length (unmap_errors tr)" by auto
      qed
      from ih eq True bound show ?thesis by auto
    next
      case gt: False
      obtain u w0 where un: "pt_section_unmap E (msec_section (msec l)) w = (u, w0)"
        by (metis prod.exhaust)
      note lg = unmap_logs[OF un]
      show ?thesis
      proof (cases u)
        case (Inl e)
        obtain r1 m1 s1 w1 where r: "pt_image_prune_loop E c (m + 1) (Inl e) rest w0 = (r1, m1, s1, w1)"
          by (metis prod_cases4)
        with Cons.prems True gt un Inl have eq: "xs' = l # r1" "m' = m1" "st' = s1" "w' = w1" by auto
        from Cons.IH[OF r] obtain tr where
          ih: "map msec r1 = map msec rest" "m1 = m + 1 + of_nat (length (filter pt_section_list.mapped r1))"
            "trace w1 = trace w0 @ tr"
            "s1 = (if unmap_errors tr = [] then Inl e else Inl (last (unmap_errors tr)))"
            "unat (m + 1) + length rest < 65536 \<longrightarrow>
               unat (m + 1) + length (filter pt_section_list.mapped r1)
                 \<le> max (unat (m + 1)) (unat c) + length (unmap_errors tr)"
          by blast
        let ?tr = "(Unmap (sec_addr (msec_section (msec l))), Some e) # tr"
        have t: "trace w1 = trace w @ ?tr" using ih(3) lg Inl by simp
        have s: "s1 = (if unmap_errors ?tr = [] then st else Inl (last (unmap_errors ?tr)))"
          using ih(4) by simp
        have bound: "unat m + length (l # rest) < 65536 \<longrightarrow>
               unat m + length (filter pt_section_list.mapped (l # r1))
                 \<le> max (unat m) (unat c) + length (unmap_errors ?tr)"
        proof
          assume b: "unat m + length (l # rest) < 65536"
          then have um: "unat (m + 1) = unat m + 1"
            by (simp add: unat_word_ariths)
          from gt have "unat c < unat (m + 1)" by (simp add: word_le_nat_alt)
          with ih(5) b um True show "unat m + length (filter pt_section_list.mapped (l # r1))
                 \<le> max (unat m) (unat c) + length (unmap_errors ?tr)" by auto
        qed
        from ih(1,2) eq True t s bound show ?thesis by (intro conjI exI[of _ ?tr]) auto
      next
        case (Inr v)
        obtain r1 m1 s1 w1 where r: "pt_image_prune_loop E c (m + 1 - 1) st rest w0 = (r1, m1, s1, w1)"
          by (metis prod_cases4)
        with Cons.prems True gt un Inr have eq: "xs' = l\<lparr>pt_section_list.mapped := False\<rparr> # r1"
          "m' = m1" "st' = s1" "w' = w1" by auto
        from Cons.IH[OF r] obtain tr where
          ih: "map msec r1 = map msec rest" "m1 = m + of_nat (length (filter pt_section_list.mapped r1))"
            "trace w1 = trace w0 @ tr"
            "s1 = (if unmap_errors tr = [] then st else Inl (last (unmap_errors tr)))"
            "unat m + length rest < 65536 \<longrightarrow>
               unat m + length (filter pt_section_list.mapped r1)
                 \<le> max (unat m) (unat c) + length (unmap_errors tr)"
          by auto
        let ?tr = "(Unmap (sec_addr (msec_section (msec l))), None) # tr"
        have t: "trace w1 = trace w @ ?tr" using ih(3) lg Inr by simp
        have s: "s1 = (if unmap_errors ?tr = [] then st else Inl (last (unmap_errors ?tr)))"
          using ih(4) by simp
        from ih(1,2,5) eq t s show ?thesis by (intro conjI exI[of _ ?tr]) auto
      qed
    qed
  qed
qed

text \<open>
  Claim C6, as amended. pt\_image\_prune\_cache goes through the whole list, whatever
  fails: the mapped sections stay the same and in place, the counter of the image becomes
  the number of elements whose mapped flag is still set, and on a list shorter than 65536
  every element still mapped beyond the cache size accounts for an unmap that failed. The
  status is success if no unmap failed, and otherwise the error of the LAST unmap that
  failed.
\<close>

theorem pt_image_prune_cache_result:
  "map msec (sections (fst (snd (pt_image_prune_cache E img w)))) = map msec (sections img) \<and>
   pt_image.mapped (fst (snd (pt_image_prune_cache E img w)))
     = of_nat (length (filter pt_section_list.mapped
                 (sections (fst (snd (pt_image_prune_cache E img w)))))) \<and>
   fst (pt_image_prune_cache E img w)
     = (if unmap_errors (drop (length (trace w)) (trace (snd (snd (pt_image_prune_cache E img w))))) = []
        then ok
        else Inl (last (unmap_errors
               (drop (length (trace w)) (trace (snd (snd (pt_image_prune_cache E img w)))))))) \<and>
   (length (sections img) < 65536 \<longrightarrow>
      length (filter pt_section_list.mapped (sections (fst (snd (pt_image_prune_cache E img w)))))
        \<le> unat (cache img)
          + length (unmap_errors
              (drop (length (trace w)) (trace (snd (snd (pt_image_prune_cache E img w)))))))"
proof -
  obtain xs' m' st' w' where
    r: "pt_image_prune_loop E (cache img) 0 ok (sections img) w = (xs', m', st', w')"
    by (metis prod_cases4)
  from prune_loop_props[OF r] obtain tr where
    p: "map msec xs' = map msec (sections img)"
       "m' = of_nat (length (filter pt_section_list.mapped xs'))"
       "trace w' = trace w @ tr"
       "st' = (if unmap_errors tr = [] then ok else Inl (last (unmap_errors tr)))"
       "length (sections img) < 65536 \<longrightarrow>
          length (filter pt_section_list.mapped xs') \<le> unat (cache img) + length (unmap_errors tr)"
    by auto
  have "pt_image_prune_cache E img w = (st', img\<lparr>sections := xs', pt_image.mapped := m'\<rparr>, w')"
    using r by (simp add: pt_image_prune_cache_def)
  with p show ?thesis by simp
qed

subsection \<open>Reading where no section answers\<close>

lemma read_mapped_miss:
  "\<not> covers m a addr \<Longrightarrow> pt_msec_read_mapped E m sz a addr w = Inl pte_nomap"
  by (auto simp: covers_def pt_msec_read_mapped_def)

lemma read_loop_miss:
  "\<forall>l\<in>set xs. \<not> covers (msec l) a addr \<Longrightarrow>
   \<exists>pre' rest'. pt_image_read_loop E sz a addr w pre xs = Inl (pre', rest') \<and>
      (\<forall>l\<in>set rest'. \<not> covers (msec l) a addr)"
  by (induction xs arbitrary: pre) (auto simp: read_mapped_miss)

lemma no_faults_after_mono:
  "no_faults_after E w \<Longrightarrow> length (trace w) \<le> length (trace w') \<Longrightarrow> no_faults_after E w'"
  by (auto simp: no_faults_after_def)

lemma map_unmap_ok:
  assumes "no_faults_after E w"
  shows "\<exists>w1 w2. pt_section_map E s w = (ok, w1) \<and> pt_section_unmap E s w1 = (ok, w2) \<and>
           no_faults_after E w2"
  using assms
  by (auto simp: pt_section_map_def pt_section_unmap_def injected_def logged_def
        no_faults_after_def)

lemma read_cold_miss:
  assumes "\<forall>l\<in>set xs. \<not> covers (msec l) a addr" and "no_faults_after E w"
  shows "fst (pt_image_read_cold E img pre xs sz a addr w) = pt_image_read_callback img sz a addr \<and>
         fst (snd (pt_image_read_cold E img pre xs sz a addr w)) = img"
  using assms
proof (induction xs arbitrary: pre w)
  case Nil
  then show ?case by simp
next
  case (Cons l rest)
  then have miss: "\<And>w'. pt_msec_read_mapped E (msec l) sz a addr w' = Inl pte_nomap"
    by (simp add: read_mapped_miss)
  show ?case
  proof (cases "pt_section_list.mapped l")
    case True
    with Cons miss show ?thesis by simp
  next
    case False
    from map_unmap_ok[OF Cons.prems(2), of "msec_section (msec l)"] obtain w1 w2 where
      mu: "pt_section_map E (msec_section (msec l)) w = (ok, w1)"
          "pt_section_unmap E (msec_section (msec l)) w1 = (ok, w2)" "no_faults_after E w2"
      by blast
    with False miss have "pt_image_read_cold E img pre (l # rest) sz a addr w
       = pt_image_read_cold E img (pre @ [l]) rest sz a addr w2" by simp
    with Cons.IH[OF _ mu(3), of "pre @ [l]"] Cons.prems(1) show ?thesis by simp
  qed
qed

text \<open>
  Claim C8, as amended. With an image and an asid, when no element covers the address in
  that asid and no map or unmap fails, pt\_image\_read returns what the callback returns for
  (size, asid, addr, context), or the no-map error when there is no callback, and leaves the
  image as it is.
\<close>

theorem pt_image_read_fallback:
  assumes "\<forall>l\<in>set (sections img). \<not> covers (msec l) a addr"
    and "no_faults_after E w"
  shows "fst (pt_image_read E (Some img) sz (Some a) addr w)
           = (case readmem_callback img of
                None \<Rightarrow> Inl pte_nomap
              | Some cb \<Rightarrow> cb sz a addr (readmem_context img)) \<and>
         fst (snd (pt_image_read E (Some img) sz (Some a) addr w)) = Some img"
proof -
  from read_loop_miss[OF assms(1), of E sz w "[]"] obtain pre' rest' where
    l: "pt_image_read_loop E sz a addr w [] (sections img) = Inl (pre', rest')"
       "\<forall>l\<in>set rest'. \<not> covers (msec l) a addr" by blast
  obtain r i1 w1 where c: "pt_image_read_cold E img pre' rest' sz a addr w = (r, i1, w1)"
    by (metis prod_cases3)
  from read_cold_miss[OF l(2) assms(2), of img pre' sz] c
  have "r = pt_image_read_callback img sz a addr" "i1 = img" by simp_all
  with l(1) c show ?thesis
    by (simp add: pt_image_read_def pt_image_read_callback_def)
qed

section \<open>Concrete runs\<close>

lemma numeral_le_one_u16:
  "((numeral n :: u16) \<le> 1) = (unat (numeral n :: u16) \<le> 1)"
  by (simp add: word_le_nat_alt)

lemma map_upt_4: "map f [0..<4] = [f 0, f 1, f 2, f 3]"
  by (simp add: upt_rec numeral_eq_Suc)

lemma env0_sel:
  "fault env0 c n = None" "file_byte env0 f off = 0"
  "match_absent env0 = Inl pte_internal" "sizeof_asid env0 = 24"
  by (simp_all add: env0_def)

lemma env_unmap_sel:
  "fault env_unmap c n = (if c = Unmap 1 then Some pte_bad_image
                          else if c = Unmap 0 then Some pte_internal else None)"
  "file_byte env_unmap f off = 0"
  "match_absent env_unmap = Inl pte_internal" "sizeof_asid env_unmap = 24"
  by (simp_all add: env_unmap_def env0_def)

lemma env_map_sel:
  "fault env_map c n = (if c = Map 0 then Some pte_bad_image else None)"
  "file_byte env_map f off = 0"
  "match_absent env_map = Inl pte_internal" "sizeof_asid env_map = 24"
  by (simp_all add: env_map_def env0_def)

lemmas run_defs =
  pt_image_init_def dupstr_def pt_image_add_file_def pt_asid_from_user_def pt_mk_section_def
  injected_def logged_def pt_image_add_def pt_mk_section_list_def malloc_def pt_section_get_def
  pt_section_put_def pt_msec_init_def pt_msec_matches_asid_def pt_asid_match_def field_match_def
  pt_msec_begin_def pt_msec_end_def pt_section_size_def pt_image_add_identical_def
  pt_section_filename_def pt_image_add_replace_def pt_image_clone_def pt_section_offset_def
  pt_section_clone_def pt_msec_asid_def pt_section_list_free_def Let_def pt_asid_init_def
  pt_section_unmap_def pt_section_map_def pt_image_add_loop.simps pt_image_read_def
  pt_image_read_cold_hit_def pt_image_prune_cache_def pt_image_read_callback_def
  pt_msec_read_mapped_def pt_section_read_def pt_image_set_callback_def pt_image_remove_def
  env0_sel env_unmap_sel env_map_sel world0_def image0_def user_asid_def asid_cr3_def entry_def image_of_def
  section_of_def numeral_le_one_u16 map_upt_4

subsection \<open>The values of the runs, step by step\<close>

lemma iso_a_value:
  "iso_a = (ok, Some \<lparr>name = None, sections = [\<lparr>msec = \<lparr>msec_section =
     \<lparr>sec_addr = 0, sec_filename = ''/b'', sec_offset = 0, sec_size = 16\<rparr>,
     msec_asid = \<lparr>cr3 = Some 1, vmcs = None\<rparr>, msec_vaddr = 0\<rparr>, mapped =
     False\<rparr>], readmem_callback = None, readmem_context = None, cache = 10, mapped =
     0\<rparr>, \<lparr>ucount = (\<lambda>a. 0)(0 := Suc 0), mcount = (\<lambda>a. 0)(0 := 0),
     fresh = Suc 0, trace = [(MkSection ''/b'' 0 16, None), (Malloc, None), (Get 0, None), (Put
     0, None)]\<rparr>)"
  by (simp add: iso_a_def  run_defs)

lemma iso_b_value:
  "iso_b = (ok, Some \<lparr>name = None, sections = [\<lparr>msec = \<lparr>msec_section =
     \<lparr>sec_addr = 0, sec_filename = ''/b'', sec_offset = 0, sec_size = 16\<rparr>,
     msec_asid = \<lparr>cr3 = Some 1, vmcs = None\<rparr>, msec_vaddr = 0\<rparr>, mapped =
     False\<rparr>, \<lparr>msec = \<lparr>msec_section = \<lparr>sec_addr = Suc 0, sec_filename
     = ''/a'', sec_offset = 0, sec_size = 16\<rparr>, msec_asid = \<lparr>cr3 = Some 2, vmcs =
     None\<rparr>, msec_vaddr = 0\<rparr>, mapped = False\<rparr>], readmem_callback = None,
     readmem_context = None, cache = 10, mapped = 0\<rparr>, \<lparr>ucount = (\<lambda>a. 0)(0
     := Suc 0, Suc 0 := Suc 0), mcount = (\<lambda>a. 0)(0 := 0, Suc 0 := 0), fresh = Suc (Suc
     0), trace = [(MkSection ''/b'' 0 16, None), (Malloc, None), (Get 0, None), (Put 0, None),
     (MkSection ''/a'' 0 16, None), (Malloc, None), (Get (Suc 0), None), (Put (Suc 0),
     None)]\<rparr>)"
  by (simp add: iso_b_def iso_a_value run_defs)

lemma iso_s_value:
  "iso_s = (Some \<lparr>sec_addr = Suc (Suc 0), sec_filename = ''/a'', sec_offset = 0, sec_size
     = 16\<rparr>, \<lparr>ucount = (\<lambda>a. 0)(0 := Suc 0, Suc 0 := Suc 0, Suc (Suc 0) :=
     Suc 0), mcount = (\<lambda>a. 0)(0 := 0, Suc 0 := 0, Suc (Suc 0) := 0), fresh = Suc (Suc
     (Suc 0)), trace = [(MkSection ''/b'' 0 16, None), (Malloc, None), (Get 0, None), (Put 0,
     None), (MkSection ''/a'' 0 16, None), (Malloc, None), (Get (Suc 0), None), (Put (Suc 0),
     None), (MkSection ''/a'' 0 16, None)]\<rparr>)"
  by (simp add: iso_s_def iso_b_value run_defs)

lemma iso_c_value:
  "iso_c = (Inl pte_internal, Some \<lparr>name = None, sections = [\<lparr>msec =
     \<lparr>msec_section = \<lparr>sec_addr = Suc 0, sec_filename = ''/a'', sec_offset = 0,
     sec_size = 16\<rparr>, msec_asid = \<lparr>cr3 = Some 2, vmcs = None\<rparr>, msec_vaddr =
     0\<rparr>, mapped = False\<rparr>, \<lparr>msec = \<lparr>msec_section = \<lparr>sec_addr =
     0, sec_filename = ''/b'', sec_offset = 0, sec_size = 16\<rparr>, msec_asid = \<lparr>cr3 =
     Some 1, vmcs = None\<rparr>, msec_vaddr = 0\<rparr>, mapped = False\<rparr>],
     readmem_callback = None, readmem_context = None, cache = 10, mapped = 0\<rparr>,
     \<lparr>ucount = (\<lambda>a. 0)(0 := Suc 0, Suc 0 := Suc 0, Suc (Suc 0) := Suc 0), mcount
     = (\<lambda>a. 0)(0 := 0, Suc 0 := 0, Suc (Suc 0) := 0), fresh = Suc (Suc (Suc 0)), trace =
     [(MkSection ''/b'' 0 16, None), (Malloc, None), (Get 0, None), (Put 0, None), (MkSection
     ''/a'' 0 16, None), (Malloc, None), (Get (Suc 0), None), (Put (Suc 0), None), (MkSection
     ''/a'' 0 16, None), (Malloc, None), (Get (Suc (Suc 0)), None), (Put (Suc (Suc 0)),
     None)]\<rparr>)"
  by (simp add: iso_c_def iso_b_value iso_s_value run_defs)

lemma twin_a_value:
  "twin_a = (ok, Some \<lparr>name = None, sections = [\<lparr>msec = \<lparr>msec_section =
     \<lparr>sec_addr = 0, sec_filename = ''/a'', sec_offset = 0, sec_size = 16\<rparr>,
     msec_asid = \<lparr>cr3 = Some 1, vmcs = None\<rparr>, msec_vaddr = 0\<rparr>, mapped =
     False\<rparr>], readmem_callback = None, readmem_context = None, cache = 10, mapped =
     0\<rparr>, \<lparr>ucount = (\<lambda>a. 0)(0 := Suc 0), mcount = (\<lambda>a. 0)(0 := 0),
     fresh = Suc 0, trace = [(MkSection ''/a'' 0 16, None), (Malloc, None), (Get 0, None), (Put
     0, None)]\<rparr>)"
  by (simp add: twin_a_def  run_defs)

lemma twin_b_value:
  "twin_b = (ok, Some \<lparr>name = None, sections = [\<lparr>msec = \<lparr>msec_section =
     \<lparr>sec_addr = 0, sec_filename = ''/a'', sec_offset = 0, sec_size = 16\<rparr>,
     msec_asid = \<lparr>cr3 = Some 1, vmcs = None\<rparr>, msec_vaddr = 0\<rparr>, mapped =
     False\<rparr>, \<lparr>msec = \<lparr>msec_section = \<lparr>sec_addr = Suc 0, sec_filename
     = ''/a'', sec_offset = 0, sec_size = 16\<rparr>, msec_asid = \<lparr>cr3 = Some 2, vmcs =
     None\<rparr>, msec_vaddr = 0\<rparr>, mapped = False\<rparr>], readmem_callback = None,
     readmem_context = None, cache = 10, mapped = 0\<rparr>, \<lparr>ucount = (\<lambda>a. 0)(0
     := Suc 0, Suc 0 := Suc 0), mcount = (\<lambda>a. 0)(0 := 0, Suc 0 := 0), fresh = Suc (Suc
     0), trace = [(MkSection ''/a'' 0 16, None), (Malloc, None), (Get 0, None), (Put 0, None),
     (MkSection ''/a'' 0 16, None), (Malloc, None), (Get (Suc 0), None), (Put (Suc 0),
     None)]\<rparr>)"
  by (simp add: twin_b_def twin_a_value run_defs)

lemma twin_c_value:
  "twin_c = (ok, Some \<lparr>name = None, sections = [\<lparr>msec = \<lparr>msec_section =
     \<lparr>sec_addr = 0, sec_filename = ''/a'', sec_offset = 0, sec_size = 16\<rparr>,
     msec_asid = \<lparr>cr3 = Some 1, vmcs = None\<rparr>, msec_vaddr = 0\<rparr>, mapped =
     False\<rparr>, \<lparr>msec = \<lparr>msec_section = \<lparr>sec_addr = Suc 0, sec_filename
     = ''/a'', sec_offset = 0, sec_size = 16\<rparr>, msec_asid = \<lparr>cr3 = Some 2, vmcs =
     None\<rparr>, msec_vaddr = 0\<rparr>, mapped = False\<rparr>], readmem_callback = None,
     readmem_context = None, cache = 10, mapped = 0\<rparr>, \<lparr>ucount = (\<lambda>a. 0)(0
     := Suc 0, Suc 0 := Suc 0, Suc (Suc 0) := 0), mcount = (\<lambda>a. 0)(0 := 0, Suc 0 := 0,
     Suc (Suc 0) := 0), fresh = Suc (Suc (Suc 0)), trace = [(MkSection ''/a'' 0 16, None),
     (Malloc, None), (Get 0, None), (Put 0, None), (MkSection ''/a'' 0 16, None), (Malloc,
     None), (Get (Suc 0), None), (Put (Suc 0), None), (MkSection ''/a'' 0 16, None), (Malloc,
     None), (Get (Suc (Suc 0)), None), (Put (Suc (Suc 0)), None), (Put (Suc (Suc 0)),
     None)]\<rparr>)"
  by (simp add: twin_c_def twin_b_value run_defs)

lemma twin_d_value:
  "twin_d = (ok, Some \<lparr>name = None, sections = [\<lparr>msec = \<lparr>msec_section =
     \<lparr>sec_addr = 0, sec_filename = ''/a'', sec_offset = 0, sec_size = 16\<rparr>,
     msec_asid = \<lparr>cr3 = Some 1, vmcs = None\<rparr>, msec_vaddr = 0\<rparr>, mapped =
     False\<rparr>, \<lparr>msec = \<lparr>msec_section = \<lparr>sec_addr = Suc 0, sec_filename
     = ''/a'', sec_offset = 0, sec_size = 16\<rparr>, msec_asid = \<lparr>cr3 = Some 2, vmcs =
     None\<rparr>, msec_vaddr = 0\<rparr>, mapped = False\<rparr>], readmem_callback = None,
     readmem_context = None, cache = 10, mapped = 0\<rparr>, \<lparr>ucount = (\<lambda>a. 0) (0
     := Suc 0, Suc 0 := Suc 0, Suc (Suc 0) := 0, Suc (Suc (Suc 0)) := 0), mcount = (\<lambda>a.
     0)(0 := 0, Suc 0 := 0, Suc (Suc 0) := 0, Suc (Suc (Suc 0)) := 0), fresh = Suc (Suc (Suc
     (Suc 0))), trace = [(MkSection ''/a'' 0 16, None), (Malloc, None), (Get 0, None), (Put 0,
     None), (MkSection ''/a'' 0 16, None), (Malloc, None), (Get (Suc 0), None), (Put (Suc 0),
     None), (MkSection ''/a'' 0 16, None), (Malloc, None), (Get (Suc (Suc 0)), None), (Put (Suc
     (Suc 0)), None), (Put (Suc (Suc 0)), None), (MkSection ''/a'' 0 16, None), (Malloc, None),
     (Get (Suc (Suc (Suc 0))), None), (Put (Suc (Suc (Suc 0))), None), (Put (Suc (Suc (Suc 0))),
     None)]\<rparr>)"
  by (simp add: twin_d_def twin_c_value run_defs)

lemma offs_s_value:
  "offs_s = (Some \<lparr>sec_addr = Suc 0, sec_filename = ''/a'', sec_offset = 32, sec_size =
     16\<rparr>, \<lparr>ucount = (\<lambda>a. 0)(0 := Suc 0, Suc 0 := Suc 0), mcount =
     (\<lambda>a. 0)(0 := 0, Suc 0 := 0), fresh = Suc (Suc 0), trace = [(MkSection ''/a'' 0 16,
     None), (Malloc, None), (Get 0, None), (Put 0, None), (MkSection ''/a'' 32 16,
     None)]\<rparr>)"
  by (simp add: offs_s_def twin_a_value run_defs)


lemma split_a_value:
  "split_a = (ok, Some \<lparr>name = None, sections = [\<lparr>msec = \<lparr>msec_section =
     \<lparr>sec_addr = 0, sec_filename = ''/a'', sec_offset = 0, sec_size = 4096\<rparr>,
     msec_asid = \<lparr>cr3 = Some 1, vmcs = None\<rparr>, msec_vaddr = 65536\<rparr>, mapped =
     False\<rparr>], readmem_callback = None, readmem_context = None, cache = 10, mapped =
     0\<rparr>, \<lparr>ucount = (\<lambda>a. 0)(0 := Suc 0), mcount = (\<lambda>a. 0)(0 := 0),
     fresh = Suc 0, trace = [(MkSection ''/a'' 0 4096, None), (Malloc, None), (Get 0, None),
     (Put 0, None)]\<rparr>)"
  by (simp add: split_a_def  run_defs)

lemma split_b_value:
  "split_b = (ok, Some \<lparr>name = None, sections = [\<lparr>msec = \<lparr>msec_section =
     \<lparr>sec_addr = Suc (Suc (Suc 0)), sec_filename = ''/a'', sec_offset = 1280, sec_size =
     2816\<rparr>, msec_asid = \<lparr>cr3 = Some 1, vmcs = None\<rparr>, msec_vaddr =
     66816\<rparr>, mapped = False\<rparr>, \<lparr>msec = \<lparr>msec_section =
     \<lparr>sec_addr = Suc (Suc 0), sec_filename = ''/a'', sec_offset = 0, sec_size =
     1024\<rparr>, msec_asid = \<lparr>cr3 = Some 1, vmcs = None\<rparr>, msec_vaddr =
     65536\<rparr>, mapped = False\<rparr>, \<lparr>msec = \<lparr>msec_section =
     \<lparr>sec_addr = Suc 0, sec_filename = ''/b'', sec_offset = 0, sec_size = 256\<rparr>,
     msec_asid = \<lparr>cr3 = Some 1, vmcs = None\<rparr>, msec_vaddr = 66560\<rparr>, mapped =
     False\<rparr>], readmem_callback = None, readmem_context = None, cache = 10, mapped =
     0\<rparr>, \<lparr>ucount = (\<lambda>a. 0) (Suc (Suc 0) := Suc 0, Suc (Suc (Suc 0)) := Suc
     0, 0 := 0, Suc 0 := Suc 0), mcount = (\<lambda>a. 0)(Suc 0 := 0, Suc (Suc 0) := 0, Suc (Suc
     (Suc 0)) := 0, 0 := 0), fresh = Suc (Suc (Suc (Suc 0))), trace = [(MkSection ''/a'' 0 4096,
     None), (Malloc, None), (Get 0, None), (Put 0, None), (MkSection ''/b'' 0 256, None),
     (Malloc, None), (Get (Suc 0), None), (Clone 0 0 1024, None), (Malloc, None), (Get (Suc (Suc
     0)), None), (Put (Suc (Suc 0)), None), (Clone 0 1280 2816, None), (Malloc, None), (Get (Suc
     (Suc (Suc 0))), None), (Put (Suc (Suc (Suc 0))), None), (Put 0, None), (Put (Suc 0),
     None)]\<rparr>)"
  by (simp add: split_b_def split_a_value run_defs)

lemma stale_b_value:
  "stale_b = (Inr [0, 0, 0, 0], Some \<lparr>name = None, sections = [\<lparr>msec =
     \<lparr>msec_section = \<lparr>sec_addr = 0, sec_filename = ''/a'', sec_offset = 0,
     sec_size = 16\<rparr>, msec_asid = \<lparr>cr3 = Some 1, vmcs = None\<rparr>, msec_vaddr =
     0\<rparr>, mapped = True\<rparr>], readmem_callback = None, readmem_context = None, cache =
     10, mapped = 1\<rparr>, \<lparr>ucount = (\<lambda>a. 0)(0 := Suc 0), mcount = (\<lambda>a.
     0)(0 := Suc 0), fresh = Suc 0, trace = [(MkSection ''/a'' 0 16, None), (Malloc, None), (Get
     0, None), (Put 0, None), (Map 0, None)]\<rparr>)"
  by (simp add: stale_b_def twin_a_value run_defs)

lemma stale_c_value:
  "stale_c = (ok, Some \<lparr>name = None, sections = [\<lparr>msec = \<lparr>msec_section =
     \<lparr>sec_addr = Suc 0, sec_filename = ''/b'', sec_offset = 0, sec_size = 16\<rparr>,
     msec_asid = \<lparr>cr3 = Some 1, vmcs = None\<rparr>, msec_vaddr = 0\<rparr>, mapped =
     False\<rparr>], readmem_callback = None, readmem_context = None, cache = 10, mapped =
     1\<rparr>, \<lparr>ucount = (\<lambda>a. 0)(0 := 0, Suc 0 := Suc 0), mcount = (\<lambda>a.
     0)(Suc 0 := 0, 0 := 0), fresh = Suc (Suc 0), trace = [(MkSection ''/a'' 0 16, None),
     (Malloc, None), (Get 0, None), (Put 0, None), (Map 0, None), (MkSection ''/b'' 0 16, None),
     (Malloc, None), (Get (Suc 0), None), (Unmap 0, None), (Put 0, None), (Put (Suc 0),
     None)]\<rparr>)"
  by (simp add: stale_c_def stale_b_value run_defs)

lemma lru_a_two_value:
  "lru_a env0 2 = (ok, Some \<lparr>name = None, sections = [\<lparr>msec = \<lparr>msec_section
     = \<lparr>sec_addr = 0, sec_filename = ''/s0'', sec_offset = 0, sec_size = 16\<rparr>,
     msec_asid = \<lparr>cr3 = Some 1, vmcs = None\<rparr>, msec_vaddr = 0\<rparr>, mapped =
     False\<rparr>], readmem_callback = None, readmem_context = None, cache = 2, mapped =
     0\<rparr>, \<lparr>ucount = (\<lambda>a. 0)(0 := Suc 0), mcount = (\<lambda>a. 0)(0 := 0),
     fresh = Suc 0, trace = [(MkSection ''/s0'' 0 16, None), (Malloc, None), (Get 0, None), (Put
     0, None)]\<rparr>)"
  by (simp add: lru_a_def  run_defs)

lemma lru_b_two_value:
  "lru_b env0 2 = (ok, Some \<lparr>name = None, sections = [\<lparr>msec = \<lparr>msec_section
     = \<lparr>sec_addr = 0, sec_filename = ''/s0'', sec_offset = 0, sec_size = 16\<rparr>,
     msec_asid = \<lparr>cr3 = Some 1, vmcs = None\<rparr>, msec_vaddr = 0\<rparr>, mapped =
     False\<rparr>, \<lparr>msec = \<lparr>msec_section = \<lparr>sec_addr = Suc 0, sec_filename
     = ''/s1'', sec_offset = 0, sec_size = 16\<rparr>, msec_asid = \<lparr>cr3 = Some 1, vmcs =
     None\<rparr>, msec_vaddr = 16\<rparr>, mapped = False\<rparr>], readmem_callback = None,
     readmem_context = None, cache = 2, mapped = 0\<rparr>, \<lparr>ucount = (\<lambda>a. 0)(0
     := Suc 0, Suc 0 := Suc 0), mcount = (\<lambda>a. 0)(0 := 0, Suc 0 := 0), fresh = Suc (Suc
     0), trace = [(MkSection ''/s0'' 0 16, None), (Malloc, None), (Get 0, None), (Put 0, None),
     (MkSection ''/s1'' 0 16, None), (Malloc, None), (Get (Suc 0), None), (Put (Suc 0),
     None)]\<rparr>)"
  by (simp add: lru_b_def lru_a_two_value run_defs)

lemma lru_c_two_value:
  "lru_c env0 2 = (ok, Some \<lparr>name = None, sections = [\<lparr>msec = \<lparr>msec_section
     = \<lparr>sec_addr = 0, sec_filename = ''/s0'', sec_offset = 0, sec_size = 16\<rparr>,
     msec_asid = \<lparr>cr3 = Some 1, vmcs = None\<rparr>, msec_vaddr = 0\<rparr>, mapped =
     False\<rparr>, \<lparr>msec = \<lparr>msec_section = \<lparr>sec_addr = Suc 0, sec_filename
     = ''/s1'', sec_offset = 0, sec_size = 16\<rparr>, msec_asid = \<lparr>cr3 = Some 1, vmcs =
     None\<rparr>, msec_vaddr = 16\<rparr>, mapped = False\<rparr>, \<lparr>msec =
     \<lparr>msec_section = \<lparr>sec_addr = Suc (Suc 0), sec_filename = ''/s2'', sec_offset =
     0, sec_size = 16\<rparr>, msec_asid = \<lparr>cr3 = Some 1, vmcs = None\<rparr>, msec_vaddr
     = 32\<rparr>, mapped = False\<rparr>], readmem_callback = None, readmem_context = None,
     cache = 2, mapped = 0\<rparr>, \<lparr>ucount = (\<lambda>a. 0)(0 := Suc 0, Suc 0 := Suc 0,
     Suc (Suc 0) := Suc 0), mcount = (\<lambda>a. 0)(0 := 0, Suc 0 := 0, Suc (Suc 0) := 0),
     fresh = Suc (Suc (Suc 0)), trace = [(MkSection ''/s0'' 0 16, None), (Malloc, None), (Get 0,
     None), (Put 0, None), (MkSection ''/s1'' 0 16, None), (Malloc, None), (Get (Suc 0), None),
     (Put (Suc 0), None), (MkSection ''/s2'' 0 16, None), (Malloc, None), (Get (Suc (Suc 0)),
     None), (Put (Suc (Suc 0)), None)]\<rparr>)"
  by (simp add: lru_c_def lru_b_two_value run_defs)

lemma lru_r0_two_value:
  "lru_r0 env0 2 = (Inr [0, 0, 0, 0], Some \<lparr>name = None, sections = [\<lparr>msec =
     \<lparr>msec_section = \<lparr>sec_addr = 0, sec_filename = ''/s0'', sec_offset = 0,
     sec_size = 16\<rparr>, msec_asid = \<lparr>cr3 = Some 1, vmcs = None\<rparr>, msec_vaddr =
     0\<rparr>, mapped = True\<rparr>, \<lparr>msec = \<lparr>msec_section = \<lparr>sec_addr =
     Suc 0, sec_filename = ''/s1'', sec_offset = 0, sec_size = 16\<rparr>, msec_asid =
     \<lparr>cr3 = Some 1, vmcs = None\<rparr>, msec_vaddr = 16\<rparr>, mapped = False\<rparr>,
     \<lparr>msec = \<lparr>msec_section = \<lparr>sec_addr = Suc (Suc 0), sec_filename =
     ''/s2'', sec_offset = 0, sec_size = 16\<rparr>, msec_asid = \<lparr>cr3 = Some 1, vmcs =
     None\<rparr>, msec_vaddr = 32\<rparr>, mapped = False\<rparr>], readmem_callback = None,
     readmem_context = None, cache = 2, mapped = 1\<rparr>, \<lparr>ucount = (\<lambda>a. 0)(0
     := Suc 0, Suc 0 := Suc 0, Suc (Suc 0) := Suc 0), mcount = (\<lambda>a. 0)(Suc 0 := 0, Suc
     (Suc 0) := 0, 0 := Suc 0), fresh = Suc (Suc (Suc 0)), trace = [(MkSection ''/s0'' 0 16,
     None), (Malloc, None), (Get 0, None), (Put 0, None), (MkSection ''/s1'' 0 16, None),
     (Malloc, None), (Get (Suc 0), None), (Put (Suc 0), None), (MkSection ''/s2'' 0 16, None),
     (Malloc, None), (Get (Suc (Suc 0)), None), (Put (Suc (Suc 0)), None), (Map 0,
     None)]\<rparr>)"
  by (simp add: lru_r0_def lru_c_two_value run_defs)

lemma lru_r1_two_value:
  "lru_r1 env0 2 = (Inr [0, 0, 0, 0], Some \<lparr>name = None, sections = [\<lparr>msec =
     \<lparr>msec_section = \<lparr>sec_addr = Suc 0, sec_filename = ''/s1'', sec_offset = 0,
     sec_size = 16\<rparr>, msec_asid = \<lparr>cr3 = Some 1, vmcs = None\<rparr>, msec_vaddr =
     16\<rparr>, mapped = True\<rparr>, \<lparr>msec = \<lparr>msec_section = \<lparr>sec_addr =
     0, sec_filename = ''/s0'', sec_offset = 0, sec_size = 16\<rparr>, msec_asid = \<lparr>cr3 =
     Some 1, vmcs = None\<rparr>, msec_vaddr = 0\<rparr>, mapped = True\<rparr>, \<lparr>msec =
     \<lparr>msec_section = \<lparr>sec_addr = Suc (Suc 0), sec_filename = ''/s2'', sec_offset =
     0, sec_size = 16\<rparr>, msec_asid = \<lparr>cr3 = Some 1, vmcs = None\<rparr>, msec_vaddr
     = 32\<rparr>, mapped = False\<rparr>], readmem_callback = None, readmem_context = None,
     cache = 2, mapped = 2\<rparr>, \<lparr>ucount = (\<lambda>a. 0)(0 := Suc 0, Suc 0 := Suc 0,
     Suc (Suc 0) := Suc 0), mcount = (\<lambda>a. 0)(Suc (Suc 0) := 0, 0 := Suc 0, Suc 0 := Suc
     0), fresh = Suc (Suc (Suc 0)), trace = [(MkSection ''/s0'' 0 16, None), (Malloc, None),
     (Get 0, None), (Put 0, None), (MkSection ''/s1'' 0 16, None), (Malloc, None), (Get (Suc 0),
     None), (Put (Suc 0), None), (MkSection ''/s2'' 0 16, None), (Malloc, None), (Get (Suc (Suc
     0)), None), (Put (Suc (Suc 0)), None), (Map 0, None), (Map (Suc 0), None)]\<rparr>)"
  by (simp add: lru_r1_def lru_r0_two_value run_defs)

lemma lru_r2_two_value:
  "lru_r2 env0 2 = (Inr [0, 0, 0, 0], Some \<lparr>name = None, sections = [\<lparr>msec =
     \<lparr>msec_section = \<lparr>sec_addr = Suc (Suc 0), sec_filename = ''/s2'', sec_offset =
     0, sec_size = 16\<rparr>, msec_asid = \<lparr>cr3 = Some 1, vmcs = None\<rparr>, msec_vaddr
     = 32\<rparr>, mapped = True\<rparr>, \<lparr>msec = \<lparr>msec_section = \<lparr>sec_addr
     = Suc 0, sec_filename = ''/s1'', sec_offset = 0, sec_size = 16\<rparr>, msec_asid =
     \<lparr>cr3 = Some 1, vmcs = None\<rparr>, msec_vaddr = 16\<rparr>, mapped = True\<rparr>,
     \<lparr>msec = \<lparr>msec_section = \<lparr>sec_addr = 0, sec_filename = ''/s0'',
     sec_offset = 0, sec_size = 16\<rparr>, msec_asid = \<lparr>cr3 = Some 1, vmcs =
     None\<rparr>, msec_vaddr = 0\<rparr>, mapped = False\<rparr>], readmem_callback = None,
     readmem_context = None, cache = 2, mapped = 2\<rparr>, \<lparr>ucount = (\<lambda>a. 0)(0
     := Suc 0, Suc 0 := Suc 0, Suc (Suc 0) := Suc 0), mcount = (\<lambda>a. 0)(Suc 0 := Suc 0,
     Suc (Suc 0) := Suc 0, 0 := 0), fresh = Suc (Suc (Suc 0)), trace = [(MkSection ''/s0'' 0 16,
     None), (Malloc, None), (Get 0, None), (Put 0, None), (MkSection ''/s1'' 0 16, None),
     (Malloc, None), (Get (Suc 0), None), (Put (Suc 0), None), (MkSection ''/s2'' 0 16, None),
     (Malloc, None), (Get (Suc (Suc 0)), None), (Put (Suc (Suc 0)), None), (Map 0, None), (Map
     (Suc 0), None), (Map (Suc (Suc 0)), None), (Unmap 0, None)]\<rparr>)"
  by (simp add: lru_r2_def lru_r1_two_value run_defs)

lemma lru_a_one_value:
  "lru_a env_unmap 1 = (ok, Some \<lparr>name = None, sections = [\<lparr>msec =
     \<lparr>msec_section = \<lparr>sec_addr = 0, sec_filename = ''/s0'', sec_offset = 0,
     sec_size = 16\<rparr>, msec_asid = \<lparr>cr3 = Some 1, vmcs = None\<rparr>, msec_vaddr =
     0\<rparr>, mapped = False\<rparr>], readmem_callback = None, readmem_context = None, cache
     = 1, mapped = 0\<rparr>, \<lparr>ucount = (\<lambda>a. 0)(0 := Suc 0), mcount =
     (\<lambda>a. 0)(0 := 0), fresh = Suc 0, trace = [(MkSection ''/s0'' 0 16, None), (Malloc,
     None), (Get 0, None), (Put 0, None)]\<rparr>)"
  by (simp add: lru_a_def  run_defs)

lemma lru_b_one_value:
  "lru_b env_unmap 1 = (ok, Some \<lparr>name = None, sections = [\<lparr>msec =
     \<lparr>msec_section = \<lparr>sec_addr = 0, sec_filename = ''/s0'', sec_offset = 0,
     sec_size = 16\<rparr>, msec_asid = \<lparr>cr3 = Some 1, vmcs = None\<rparr>, msec_vaddr =
     0\<rparr>, mapped = False\<rparr>, \<lparr>msec = \<lparr>msec_section = \<lparr>sec_addr =
     Suc 0, sec_filename = ''/s1'', sec_offset = 0, sec_size = 16\<rparr>, msec_asid =
     \<lparr>cr3 = Some 1, vmcs = None\<rparr>, msec_vaddr = 16\<rparr>, mapped =
     False\<rparr>], readmem_callback = None, readmem_context = None, cache = 1, mapped =
     0\<rparr>, \<lparr>ucount = (\<lambda>a. 0)(0 := Suc 0, Suc 0 := Suc 0), mcount =
     (\<lambda>a. 0)(0 := 0, Suc 0 := 0), fresh = Suc (Suc 0), trace = [(MkSection ''/s0'' 0 16,
     None), (Malloc, None), (Get 0, None), (Put 0, None), (MkSection ''/s1'' 0 16, None),
     (Malloc, None), (Get (Suc 0), None), (Put (Suc 0), None)]\<rparr>)"
  by (simp add: lru_b_def lru_a_one_value run_defs)

lemma lru_c_one_value:
  "lru_c env_unmap 1 = (ok, Some \<lparr>name = None, sections = [\<lparr>msec =
     \<lparr>msec_section = \<lparr>sec_addr = 0, sec_filename = ''/s0'', sec_offset = 0,
     sec_size = 16\<rparr>, msec_asid = \<lparr>cr3 = Some 1, vmcs = None\<rparr>, msec_vaddr =
     0\<rparr>, mapped = False\<rparr>, \<lparr>msec = \<lparr>msec_section = \<lparr>sec_addr =
     Suc 0, sec_filename = ''/s1'', sec_offset = 0, sec_size = 16\<rparr>, msec_asid =
     \<lparr>cr3 = Some 1, vmcs = None\<rparr>, msec_vaddr = 16\<rparr>, mapped = False\<rparr>,
     \<lparr>msec = \<lparr>msec_section = \<lparr>sec_addr = Suc (Suc 0), sec_filename =
     ''/s2'', sec_offset = 0, sec_size = 16\<rparr>, msec_asid = \<lparr>cr3 = Some 1, vmcs =
     None\<rparr>, msec_vaddr = 32\<rparr>, mapped = False\<rparr>], readmem_callback = None,
     readmem_context = None, cache = 1, mapped = 0\<rparr>, \<lparr>ucount = (\<lambda>a. 0)(0
     := Suc 0, Suc 0 := Suc 0, Suc (Suc 0) := Suc 0), mcount = (\<lambda>a. 0)(0 := 0, Suc 0 :=
     0, Suc (Suc 0) := 0), fresh = Suc (Suc (Suc 0)), trace = [(MkSection ''/s0'' 0 16, None),
     (Malloc, None), (Get 0, None), (Put 0, None), (MkSection ''/s1'' 0 16, None), (Malloc,
     None), (Get (Suc 0), None), (Put (Suc 0), None), (MkSection ''/s2'' 0 16, None), (Malloc,
     None), (Get (Suc (Suc 0)), None), (Put (Suc (Suc 0)), None)]\<rparr>)"
  by (simp add: lru_c_def lru_b_one_value run_defs)

lemma lru_r0_one_value:
  "lru_r0 env_unmap 1 = (Inr [0, 0, 0, 0], Some \<lparr>name = None, sections = [\<lparr>msec =
     \<lparr>msec_section = \<lparr>sec_addr = 0, sec_filename = ''/s0'', sec_offset = 0,
     sec_size = 16\<rparr>, msec_asid = \<lparr>cr3 = Some 1, vmcs = None\<rparr>, msec_vaddr =
     0\<rparr>, mapped = True\<rparr>, \<lparr>msec = \<lparr>msec_section = \<lparr>sec_addr =
     Suc 0, sec_filename = ''/s1'', sec_offset = 0, sec_size = 16\<rparr>, msec_asid =
     \<lparr>cr3 = Some 1, vmcs = None\<rparr>, msec_vaddr = 16\<rparr>, mapped = False\<rparr>,
     \<lparr>msec = \<lparr>msec_section = \<lparr>sec_addr = Suc (Suc 0), sec_filename =
     ''/s2'', sec_offset = 0, sec_size = 16\<rparr>, msec_asid = \<lparr>cr3 = Some 1, vmcs =
     None\<rparr>, msec_vaddr = 32\<rparr>, mapped = False\<rparr>], readmem_callback = None,
     readmem_context = None, cache = 1, mapped = 1\<rparr>, \<lparr>ucount = (\<lambda>a. 0)(0
     := Suc 0, Suc 0 := Suc 0, Suc (Suc 0) := Suc 0), mcount = (\<lambda>a. 0)(Suc 0 := 0, Suc
     (Suc 0) := 0, 0 := Suc 0), fresh = Suc (Suc (Suc 0)), trace = [(MkSection ''/s0'' 0 16,
     None), (Malloc, None), (Get 0, None), (Put 0, None), (MkSection ''/s1'' 0 16, None),
     (Malloc, None), (Get (Suc 0), None), (Put (Suc 0), None), (MkSection ''/s2'' 0 16, None),
     (Malloc, None), (Get (Suc (Suc 0)), None), (Put (Suc (Suc 0)), None), (Map 0,
     None)]\<rparr>)"
  by (simp add: lru_r0_def lru_c_one_value run_defs)

lemma lru_r1_one_value:
  "lru_r1 env_unmap 1 = (Inl pte_internal, Some \<lparr>name = None, sections = [\<lparr>msec =
     \<lparr>msec_section = \<lparr>sec_addr = Suc 0, sec_filename = ''/s1'', sec_offset = 0,
     sec_size = 16\<rparr>, msec_asid = \<lparr>cr3 = Some 1, vmcs = None\<rparr>, msec_vaddr =
     16\<rparr>, mapped = True\<rparr>, \<lparr>msec = \<lparr>msec_section = \<lparr>sec_addr =
     0, sec_filename = ''/s0'', sec_offset = 0, sec_size = 16\<rparr>, msec_asid = \<lparr>cr3 =
     Some 1, vmcs = None\<rparr>, msec_vaddr = 0\<rparr>, mapped = True\<rparr>, \<lparr>msec =
     \<lparr>msec_section = \<lparr>sec_addr = Suc (Suc 0), sec_filename = ''/s2'', sec_offset =
     0, sec_size = 16\<rparr>, msec_asid = \<lparr>cr3 = Some 1, vmcs = None\<rparr>, msec_vaddr
     = 32\<rparr>, mapped = False\<rparr>], readmem_callback = None, readmem_context = None,
     cache = 1, mapped = 2\<rparr>, \<lparr>ucount = (\<lambda>a. 0)(0 := Suc 0, Suc 0 := Suc 0,
     Suc (Suc 0) := Suc 0), mcount = (\<lambda>a. 0)(Suc (Suc 0) := 0, 0 := Suc 0, Suc 0 := Suc
     0), fresh = Suc (Suc (Suc 0)), trace = [(MkSection ''/s0'' 0 16, None), (Malloc, None),
     (Get 0, None), (Put 0, None), (MkSection ''/s1'' 0 16, None), (Malloc, None), (Get (Suc 0),
     None), (Put (Suc 0), None), (MkSection ''/s2'' 0 16, None), (Malloc, None), (Get (Suc (Suc
     0)), None), (Put (Suc (Suc 0)), None), (Map 0, None), (Map (Suc 0), None), (Unmap 0, Some
     pte_internal)]\<rparr>)"
  by (simp add: lru_r1_def lru_r0_one_value run_defs)

lemma lru_r2_one_value:
  "lru_r2 env_unmap 1 = (Inl pte_internal, Some \<lparr>name = None, sections = [\<lparr>msec =
     \<lparr>msec_section = \<lparr>sec_addr = Suc (Suc 0), sec_filename = ''/s2'', sec_offset =
     0, sec_size = 16\<rparr>, msec_asid = \<lparr>cr3 = Some 1, vmcs = None\<rparr>, msec_vaddr
     = 32\<rparr>, mapped = True\<rparr>, \<lparr>msec = \<lparr>msec_section = \<lparr>sec_addr
     = Suc 0, sec_filename = ''/s1'', sec_offset = 0, sec_size = 16\<rparr>, msec_asid =
     \<lparr>cr3 = Some 1, vmcs = None\<rparr>, msec_vaddr = 16\<rparr>, mapped = True\<rparr>,
     \<lparr>msec = \<lparr>msec_section = \<lparr>sec_addr = 0, sec_filename = ''/s0'',
     sec_offset = 0, sec_size = 16\<rparr>, msec_asid = \<lparr>cr3 = Some 1, vmcs =
     None\<rparr>, msec_vaddr = 0\<rparr>, mapped = True\<rparr>], readmem_callback = None,
     readmem_context = None, cache = 1, mapped = 3\<rparr>, \<lparr>ucount = (\<lambda>a. 0)(0
     := Suc 0, Suc 0 := Suc 0, Suc (Suc 0) := Suc 0), mcount = (\<lambda>a. 0)(0 := Suc 0, Suc 0
     := Suc 0, Suc (Suc 0) := Suc 0), fresh = Suc (Suc (Suc 0)), trace = [(MkSection ''/s0'' 0
     16, None), (Malloc, None), (Get 0, None), (Put 0, None), (MkSection ''/s1'' 0 16, None),
     (Malloc, None), (Get (Suc 0), None), (Put (Suc 0), None), (MkSection ''/s2'' 0 16, None),
     (Malloc, None), (Get (Suc (Suc 0)), None), (Put (Suc (Suc 0)), None), (Map 0, None), (Map
     (Suc 0), None), (Unmap 0, Some pte_internal), (Map (Suc (Suc 0)), None), (Unmap (Suc 0),
     Some pte_bad_image), (Unmap 0, Some pte_internal)]\<rparr>)"
  by (simp add: lru_r2_def lru_r1_one_value run_defs)

lemma prune_run_value:
  "prune_run = (Inl pte_internal, \<lparr>name = None, sections = [\<lparr>msec =
     \<lparr>msec_section = \<lparr>sec_addr = Suc (Suc 0), sec_filename = ''/s2'', sec_offset =
     0, sec_size = 16\<rparr>, msec_asid = \<lparr>cr3 = Some 1, vmcs = None\<rparr>, msec_vaddr
     = 32\<rparr>, mapped = True\<rparr>, \<lparr>msec = \<lparr>msec_section = \<lparr>sec_addr
     = Suc 0, sec_filename = ''/s1'', sec_offset = 0, sec_size = 16\<rparr>, msec_asid =
     \<lparr>cr3 = Some 1, vmcs = None\<rparr>, msec_vaddr = 16\<rparr>, mapped = True\<rparr>,
     \<lparr>msec = \<lparr>msec_section = \<lparr>sec_addr = 0, sec_filename = ''/s0'',
     sec_offset = 0, sec_size = 16\<rparr>, msec_asid = \<lparr>cr3 = Some 1, vmcs =
     None\<rparr>, msec_vaddr = 0\<rparr>, mapped = True\<rparr>], readmem_callback = None,
     readmem_context = None, cache = 1, mapped = 3\<rparr>, \<lparr>ucount = (\<lambda>a. 0)(0
     := Suc 0, Suc 0 := Suc 0, Suc (Suc 0) := Suc 0), mcount = (\<lambda>a. 0)(0 := Suc 0, Suc 0
     := Suc 0, Suc (Suc 0) := Suc 0), fresh = Suc (Suc (Suc 0)), trace = [(MkSection ''/s0'' 0
     16, None), (Malloc, None), (Get 0, None), (Put 0, None), (MkSection ''/s1'' 0 16, None),
     (Malloc, None), (Get (Suc 0), None), (Put (Suc 0), None), (MkSection ''/s2'' 0 16, None),
     (Malloc, None), (Get (Suc (Suc 0)), None), (Put (Suc (Suc 0)), None), (Map 0, None), (Map
     (Suc 0), None), (Unmap 0, Some pte_internal), (Map (Suc (Suc 0)), None), (Unmap (Suc 0),
     Some pte_bad_image), (Unmap 0, Some pte_internal), (Unmap (Suc 0), Some pte_bad_image),
     (Unmap 0, Some pte_internal)]\<rparr>)"
  by (simp add: prune_run_def lru_r2_one_value run_defs)

lemma cb_a_value:
  "cb_a = (ok, Some \<lparr>name = None, sections = [\<lparr>msec = \<lparr>msec_section =
     \<lparr>sec_addr = 0, sec_filename = ''/a'', sec_offset = 0, sec_size = 16\<rparr>,
     msec_asid = \<lparr>cr3 = Some 1, vmcs = None\<rparr>, msec_vaddr = 0\<rparr>, mapped =
     False\<rparr>], readmem_callback = None, readmem_context = None, cache = 10, mapped =
     0\<rparr>, \<lparr>ucount = (\<lambda>a. 0)(0 := Suc 0), mcount = (\<lambda>a. 0)(0 := 0),
     fresh = Suc 0, trace = [(MkSection ''/a'' 0 16, None), (Malloc, None), (Get 0, None), (Put
     0, None)]\<rparr>)"
  by (simp add: cb_a_def  run_defs)

lemma cb_s_value:
  "cb_s = (ok, Some \<lparr>name = None, sections = [\<lparr>msec = \<lparr>msec_section =
     \<lparr>sec_addr = 0, sec_filename = ''/a'', sec_offset = 0, sec_size = 16\<rparr>,
     msec_asid = \<lparr>cr3 = Some 1, vmcs = None\<rparr>, msec_vaddr = 0\<rparr>, mapped =
     False\<rparr>], readmem_callback = Some one_byte, readmem_context = None, cache = 10,
     mapped = 0\<rparr>)"
  by (simp add: cb_s_def cb_a_value run_defs)

lemma cb_r_value:
  "cb_r = (Inl pte_bad_image, Some \<lparr>name = None, sections = [\<lparr>msec =
     \<lparr>msec_section = \<lparr>sec_addr = 0, sec_filename = ''/a'', sec_offset = 0,
     sec_size = 16\<rparr>, msec_asid = \<lparr>cr3 = Some 1, vmcs = None\<rparr>, msec_vaddr =
     0\<rparr>, mapped = False\<rparr>], readmem_callback = Some one_byte, readmem_context =
     None, cache = 10, mapped = 0\<rparr>, \<lparr>ucount = (\<lambda>a. 0)(0 := Suc 0), mcount
     = (\<lambda>a. 0)(0 := 0), fresh = Suc 0, trace = [(MkSection ''/a'' 0 16, None), (Malloc,
     None), (Get 0, None), (Put 0, None), (Map 0, Some pte_bad_image)]\<rparr>)"
  by (simp add: cb_r_def cb_a_value cb_s_value run_defs)

subsection \<open>Adds\<close>

text \<open>
  Against claim C1 as stated: /b in address space 1 and /a in address space 2 lie at the
  same addresses; the add of /a for all address spaces removes /b, then meets /a and fails
  with the internal error. The failed add has swapped the two elements.
\<close>

theorem failed_add_reorders:
  "fst iso_c = Inl pte_internal \<and>
   fst (snd iso_b) = Some (image_of [entry 0 ''/b'' 0 0x10 (Some 1) 0 False,
                                      entry 1 ''/a'' 0 0x10 (Some 2) 0 False]) \<and>
   fst (snd iso_c) = Some (image_of [entry 1 ''/a'' 0 0x10 (Some 2) 0 False,
                                      entry 0 ''/b'' 0 0x10 (Some 1) 0 False]) \<and>
   fst (snd iso_c) \<noteq> fst (snd iso_b)"
  by (simp add: iso_c_value iso_b_value run_defs)


text \<open>
  An instance of the theorem on failed adds: /b, mapped, in address space 1 and /a in address
  space 2 at the same addresses; /a is added for all address spaces. The add fails, and /b
  is at the tail, not mapped.
\<close>

theorem pt_image_add_failure_witness:
  "fst (pt_image_add env0
         (Some (image_of [entry 0 ''/b'' 0 0x10 (Some 1) 0 True,
                          entry 1 ''/a'' 0 0x10 (Some 2) 0 False]))
         (Some (section_of 2 ''/a'' 0 0x10)) (Some pt_asid_init) 0 world0) = Inl pte_internal \<and>
   fst (snd (pt_image_add env0
         (Some (image_of [entry 0 ''/b'' 0 0x10 (Some 1) 0 True,
                          entry 1 ''/a'' 0 0x10 (Some 2) 0 False]))
         (Some (section_of 2 ''/a'' 0 0x10)) (Some pt_asid_init) 0 world0))
     = Some (image_of [entry 1 ''/a'' 0 0x10 (Some 2) 0 False,
                       entry 0 ''/b'' 0 0x10 (Some 1) 0 False]) \<and>
   (\<exists>A B img'.
      sections (image_of [entry 0 ''/b'' 0 0x10 (Some 1) 0 True,
                          entry 1 ''/a'' 0 0x10 (Some 2) 0 False]) = A @ B \<and>
      fst (snd (pt_image_add env0
         (Some (image_of [entry 0 ''/b'' 0 0x10 (Some 1) 0 True,
                          entry 1 ''/a'' 0 0x10 (Some 2) 0 False]))
         (Some (section_of 2 ''/a'' 0 0x10)) (Some pt_asid_init) 0 world0)) = Some img' \<and>
      sections img' =
        filter (Not \<circ> conflicts env0 (Some pt_asid_init) 0
                         (0 + sec_size (section_of 2 ''/a'' 0 0x10))) A @ B @
        rev (map unmapped (filter (conflicts env0 (Some pt_asid_init) 0
                                     (0 + sec_size (section_of 2 ''/a'' 0 0x10))) A)) \<and>
      name img' = name (image_of [entry 0 ''/b'' 0 0x10 (Some 1) 0 True,
                                   entry 1 ''/a'' 0 0x10 (Some 2) 0 False]) \<and>
      cache img' = cache (image_of [entry 0 ''/b'' 0 0x10 (Some 1) 0 True,
                                     entry 1 ''/a'' 0 0x10 (Some 2) 0 False]) \<and>
      readmem_callback img'
        = readmem_callback (image_of [entry 0 ''/b'' 0 0x10 (Some 1) 0 True,
                                       entry 1 ''/a'' 0 0x10 (Some 2) 0 False]) \<and>
      readmem_context img'
        = readmem_context (image_of [entry 0 ''/b'' 0 0x10 (Some 1) 0 True,
                                      entry 1 ''/a'' 0 0x10 (Some 2) 0 False]))"
proof -
  have h: "fst (pt_image_add env0
         (Some (image_of [entry 0 ''/b'' 0 0x10 (Some 1) 0 True,
                          entry 1 ''/a'' 0 0x10 (Some 2) 0 False]))
         (Some (section_of 2 ''/a'' 0 0x10)) (Some pt_asid_init) 0 world0) = Inl pte_internal"
    by (simp add: run_defs)
  have v: "fst (snd (pt_image_add env0
         (Some (image_of [entry 0 ''/b'' 0 0x10 (Some 1) 0 True,
                          entry 1 ''/a'' 0 0x10 (Some 2) 0 False]))
         (Some (section_of 2 ''/a'' 0 0x10)) (Some pt_asid_init) 0 world0))
     = Some (image_of [entry 1 ''/a'' 0 0x10 (Some 2) 0 False,
                       entry 0 ''/b'' 0 0x10 (Some 1) 0 False])"
    by (simp add: run_defs)
  from pt_image_add_failure[where E = env0 and a = "Some pt_asid_init" and vaddr = 0
         and w = world0 and s = "section_of 2 ''/a'' 0 0x10" and err = pte_internal
         and img = "image_of [entry 0 ''/b'' 0 0x10 (Some 1) 0 True,
                              entry 1 ''/a'' 0 0x10 (Some 2) 0 False]"] h v
  show ?thesis by blast
qed



text \<open>
  Against claim C4 as stated: the image holds /a at addresses 0 to 16 in address space 1 and
  in address space 2. Two successive adds of /a at these addresses for all address spaces
  both succeed, and the image holds two entries for that region.
\<close>

theorem repeated_add_two_entries:
  "fst twin_c = ok \<and> fst twin_d = ok \<and>
   fst (snd twin_d) = Some (image_of [entry 0 ''/a'' 0 0x10 (Some 1) 0 False,
                                       entry 1 ''/a'' 0 0x10 (Some 2) 0 False]) \<and>
   length (filter (region_entry pt_asid_init 0 (section_of 3 ''/a'' 0 0x10))
             (sections (the (fst (snd twin_d))))) = 2"
  by (simp add: twin_d_value twin_c_value run_defs region_entry_def)

text \<open>
  An instance of the theorem on repeated adds, scenario 2 of the specification: /a is added
  twice to the empty image.
\<close>

theorem pt_image_add_twice_witness:
  "fst (pt_image_add env0 (Some image0) (Some (section_of 0 ''/a'' 0 0x100))
          (Some (asid_cr3 1)) 0 world0) = ok \<and>
   no_faults_after env0 (snd (snd (pt_image_add env0 (Some image0)
          (Some (section_of 0 ''/a'' 0 0x100)) (Some (asid_cr3 1)) 0 world0))) \<and>
   (0 :: u64) < 0 + sec_size (section_of 0 ''/a'' 0 0x100) \<and>
   sec_filename (section_of 1 ''/a'' 0 0x100) = sec_filename (section_of 0 ''/a'' 0 0x100) \<and>
   sec_size (section_of 1 ''/a'' 0 0x100) = sec_size (section_of 0 ''/a'' 0 0x100) \<and>
   sections image0 = [] \<and>
   (\<exists>img1. fst (snd (pt_image_add env0 (Some image0) (Some (section_of 0 ''/a'' 0 0x100))
                        (Some (asid_cr3 1)) 0 world0)) = Some img1 \<and>
      fst (pt_image_add env0 (Some img1) (Some (section_of 1 ''/a'' 0 0x100)) (Some (asid_cr3 1)) 0
             (snd (snd (pt_image_add env0 (Some image0) (Some (section_of 0 ''/a'' 0 0x100))
                          (Some (asid_cr3 1)) 0 world0)))) = ok \<and>
      fst (snd (pt_image_add env0 (Some img1) (Some (section_of 1 ''/a'' 0 0x100))
             (Some (asid_cr3 1)) 0
             (snd (snd (pt_image_add env0 (Some image0) (Some (section_of 0 ''/a'' 0 0x100))
                          (Some (asid_cr3 1)) 0 world0))))) = Some img1 \<and>
      ucount (snd (snd (pt_image_add env0 (Some img1) (Some (section_of 1 ''/a'' 0 0x100))
             (Some (asid_cr3 1)) 0
             (snd (snd (pt_image_add env0 (Some image0) (Some (section_of 0 ''/a'' 0 0x100))
                          (Some (asid_cr3 1)) 0 world0))))))
        = ucount (snd (snd (pt_image_add env0 (Some image0) (Some (section_of 0 ''/a'' 0 0x100))
                          (Some (asid_cr3 1)) 0 world0))) \<and>
      length (filter (region_entry (asid_cr3 1) 0 (section_of 0 ''/a'' 0 0x100)) (sections img1)) = 1)"
proof -
  have h1: "fst (pt_image_add env0 (Some image0) (Some (section_of 0 ''/a'' 0 0x100))
          (Some (asid_cr3 1)) 0 world0) = ok"
    by (simp add: run_defs)
  have h2: "no_faults_after env0 (snd (snd (pt_image_add env0 (Some image0)
          (Some (section_of 0 ''/a'' 0 0x100)) (Some (asid_cr3 1)) 0 world0)))"
    by (simp add: no_faults_after_def env0_sel)
  have h3: "(0 :: u64) < 0 + sec_size (section_of 0 ''/a'' 0 0x100)"
    by (simp add: run_defs)
  have h4: "sec_filename (section_of 1 ''/a'' 0 0x100) = sec_filename (section_of 0 ''/a'' 0 0x100)"
    by (simp add: run_defs)
  have h5: "sec_size (section_of 1 ''/a'' 0 0x100) = sec_size (section_of 0 ''/a'' 0 0x100)"
    by (simp add: run_defs)
  have h6: "\<forall>l\<in>set (sections image0). \<not> region_entry (asid_cr3 1) 0 (section_of 0 ''/a'' 0 0x100) l"
    by (simp add: run_defs)
  have h7: "sections image0 = []"
    by (simp add: run_defs)
  from pt_image_add_twice[OF h1 h2 h3 h4 h5] h1 h2 h3 h4 h5 h6 h7
  show ?thesis by blast
qed

text \<open>
  Against claim C10 as stated: the image holds /a at addresses 0 to 16 of address space 1.
  The add of a section with a NULL asid is rejected with the internal error, by the
  comparison of the asid of /a with the NULL asid, and the image is left as it is.
\<close>

theorem null_asid_add_rejected:
  "fst (snd twin_a) = Some (image_of [entry 0 ''/a'' 0 0x10 (Some 1) 0 False]) \<and>
   fst offs_s = Some (section_of 1 ''/a'' 0x20 0x10) \<and>
   fst null_add = Inl pte_internal \<and>
   fst (snd null_add) = fst (snd twin_a)"
  by (simp add: null_add_def offs_s_value twin_a_value run_defs)

text \<open>
  Two instances of the theorem on adds with a NULL asid. In an environment where the
  comparison with a NULL asid says match, the image holds /b elsewhere and /a is added at 0:
  the add succeeds. In the environment where the comparison is an internal error, the same
  add is rejected.
\<close>

theorem pt_image_add_null_asid_witness:
  "no_faults_after (env0\<lparr>match_absent := Inr True\<rparr>) world0 \<and>
   list_all (skips (env0\<lparr>match_absent := Inr True\<rparr>) None 0
               (0 + sec_size (section_of 0 ''/a'' 0 0x10)))
     (sections (image_of [entry 5 ''/b'' 0 0x10 (Some 1) 0x100 False])) \<and>
   fst (pt_image_add (env0\<lparr>match_absent := Inr True\<rparr>)
          (Some (image_of [entry 5 ''/b'' 0 0x10 (Some 1) 0x100 False]))
          (Some (section_of 0 ''/a'' 0 0x10)) None 0 world0) = ok \<and>
   fst (snd (pt_image_add (env0\<lparr>match_absent := Inr True\<rparr>)
          (Some (image_of [entry 5 ''/b'' 0 0x10 (Some 1) 0x100 False]))
          (Some (section_of 0 ''/a'' 0 0x10)) None 0 world0))
     = Some (image_of [entry 5 ''/b'' 0 0x10 (Some 1) 0x100 False,
                       entry 0 ''/a'' 0 0x10 None 0 False]) \<and>
   no_faults_after env0 world0 \<and>
   sections (image_of [entry 5 ''/b'' 0 0x10 (Some 1) 0x100 False]) \<noteq> [] \<and>
   match_absent env0 = Inl pte_internal \<and>
   fst (pt_image_add env0
          (Some (image_of [entry 5 ''/b'' 0 0x10 (Some 1) 0x100 False]))
          (Some (section_of 0 ''/a'' 0 0x10)) None 0 world0) = Inl pte_internal \<and>
   fst (snd (pt_image_add env0
          (Some (image_of [entry 5 ''/b'' 0 0x10 (Some 1) 0x100 False]))
          (Some (section_of 0 ''/a'' 0 0x10)) None 0 world0))
     = Some (image_of [entry 5 ''/b'' 0 0x10 (Some 1) 0x100 False])"
proof -
  have h: "no_faults_after (env0\<lparr>match_absent := Inr True\<rparr>) world0 \<and>
   (\<forall>l\<in>set (sections (image_of [entry 5 ''/b'' 0 0x10 (Some 1) 0x100 False])).
      skips (env0\<lparr>match_absent := Inr True\<rparr>) None 0 (0 + sec_size (section_of 0 ''/a'' 0 0x10)) l)"
    by (simp add: no_faults_after_def skips_def overlaps_def run_defs)
  have k: "no_faults_after env0 world0 \<and>
      sections (image_of [entry 5 ''/b'' 0 0x10 (Some 1) 0x100 False]) \<noteq> [] \<and>
      match_absent env0 = Inl pte_internal"
    by (simp add: no_faults_after_def run_defs)
  from pt_image_add_null_asid[where E = "env0\<lparr>match_absent := Inr True\<rparr>" and vaddr = 0
         and w = world0 and s = "section_of 0 ''/a'' 0 0x10"
         and img = "image_of [entry 5 ''/b'' 0 0x10 (Some 1) 0x100 False]"] h
  have a: "fst (pt_image_add (env0\<lparr>match_absent := Inr True\<rparr>)
          (Some (image_of [entry 5 ''/b'' 0 0x10 (Some 1) 0x100 False]))
          (Some (section_of 0 ''/a'' 0 0x10)) None 0 world0) = ok \<and>
   fst (snd (pt_image_add (env0\<lparr>match_absent := Inr True\<rparr>)
          (Some (image_of [entry 5 ''/b'' 0 0x10 (Some 1) 0x100 False]))
          (Some (section_of 0 ''/a'' 0 0x10)) None 0 world0))
     = Some (image_of [entry 5 ''/b'' 0 0x10 (Some 1) 0x100 False,
                       entry 0 ''/a'' 0 0x10 None 0 False])"
    by (simp add: run_defs)
  from pt_image_add_null_asid[where E = env0 and vaddr = 0 and w = world0
         and s = "section_of 0 ''/a'' 0 0x10" and e = pte_internal
         and img = "image_of [entry 5 ''/b'' 0 0x10 (Some 1) 0x100 False]"] k
  have b: "fst (pt_image_add env0
          (Some (image_of [entry 5 ''/b'' 0 0x10 (Some 1) 0x100 False]))
          (Some (section_of 0 ''/a'' 0 0x10)) None 0 world0) = Inl pte_internal \<and>
   fst (snd (pt_image_add env0
          (Some (image_of [entry 5 ''/b'' 0 0x10 (Some 1) 0x100 False]))
          (Some (section_of 0 ''/a'' 0 0x10)) None 0 world0))
     = Some (image_of [entry 5 ''/b'' 0 0x10 (Some 1) 0x100 False])"
    by blast
  from h k a b show ?thesis by (simp add: list_all_iff)
qed

subsection \<open>Removal, pruning and reads\<close>

text \<open>
  Two instances of the theorem on removal. The image holds /a (the section object at 0)
  at 0 in address space 1 and /b (the object at 1) at 0x100. Removing the object at 7 finds
  nothing; removing the object at 1 at 0x100 unlinks the second element.
\<close>

theorem pt_image_remove_first_witness:
  "list_all (Not \<circ> removal_target (section_of 7 ''/b'' 0 0x10) (asid_cr3 1) 0x100)
     (sections (image_of [entry 0 ''/a'' 0 0x10 (Some 1) 0 False,
                          entry 1 ''/b'' 0 0x10 (Some 1) 0x100 False])) \<and>
   pt_image_remove env0
      (Some (image_of [entry 0 ''/a'' 0 0x10 (Some 1) 0 False,
                       entry 1 ''/b'' 0 0x10 (Some 1) 0x100 False]))
      (Some (section_of 7 ''/b'' 0 0x10)) (Some (asid_cr3 1)) 0x100 world0
     = (Inl pte_bad_image,
        Some (image_of [entry 0 ''/a'' 0 0x10 (Some 1) 0 False,
                        entry 1 ''/b'' 0 0x10 (Some 1) 0x100 False]), world0) \<and>
   sections (image_of [entry 0 ''/a'' 0 0x10 (Some 1) 0 False,
                       entry 1 ''/b'' 0 0x10 (Some 1) 0x100 False])
     = [entry 0 ''/a'' 0 0x10 (Some 1) 0 False] @ entry 1 ''/b'' 0 0x10 (Some 1) 0x100 False # [] \<and>
   list_all (Not \<circ> removal_target (section_of 1 ''/b'' 0 0x10) (asid_cr3 1) 0x100)
     [entry 0 ''/a'' 0 0x10 (Some 1) 0 False] \<and>
   removal_target (section_of 1 ''/b'' 0 0x10) (asid_cr3 1) 0x100
      (entry 1 ''/b'' 0 0x10 (Some 1) 0x100 False) \<and>
   fst (pt_image_remove env0
      (Some (image_of [entry 0 ''/a'' 0 0x10 (Some 1) 0 False,
                       entry 1 ''/b'' 0 0x10 (Some 1) 0x100 False]))
      (Some (section_of 1 ''/b'' 0 0x10)) (Some (asid_cr3 1)) 0x100 world0) = ok \<and>
   fst (snd (pt_image_remove env0
      (Some (image_of [entry 0 ''/a'' 0 0x10 (Some 1) 0 False,
                       entry 1 ''/b'' 0 0x10 (Some 1) 0x100 False]))
      (Some (section_of 1 ''/b'' 0 0x10)) (Some (asid_cr3 1)) 0x100 world0))
     = Some (image_of [entry 0 ''/a'' 0 0x10 (Some 1) 0 False])"
proof -
  let ?img = "image_of [entry 0 ''/a'' 0 0x10 (Some 1) 0 False,
                        entry 1 ''/b'' 0 0x10 (Some 1) 0x100 False]"
  have h1: "\<forall>l\<in>set (sections ?img).
      \<not> removal_target (section_of 7 ''/b'' 0 0x10) (asid_cr3 1) 0x100 l"
    by (simp add: removal_target_def run_defs)
  have h2: "sections ?img
     = [entry 0 ''/a'' 0 0x10 (Some 1) 0 False] @ entry 1 ''/b'' 0 0x10 (Some 1) 0x100 False # [] \<and>
   (\<forall>x\<in>set [entry 0 ''/a'' 0 0x10 (Some 1) 0 False].
      \<not> removal_target (section_of 1 ''/b'' 0 0x10) (asid_cr3 1) 0x100 x) \<and>
   removal_target (section_of 1 ''/b'' 0 0x10) (asid_cr3 1) 0x100
      (entry 1 ''/b'' 0 0x10 (Some 1) 0x100 False)"
    by (simp add: removal_target_def run_defs)
  have e: "?img\<lparr>sections := [entry 0 ''/a'' 0 0x10 (Some 1) 0 False] @ []\<rparr>
             = image_of [entry 0 ''/a'' 0 0x10 (Some 1) 0 False]"
    by (simp add: image_of_def)
  from pt_image_remove_first[of ?img "section_of 7 ''/b'' 0 0x10" "asid_cr3 1" "0x100" env0 world0]
    h1
  have r1: "pt_image_remove env0 (Some ?img) (Some (section_of 7 ''/b'' 0 0x10))
              (Some (asid_cr3 1)) 0x100 world0 = (Inl pte_bad_image, Some ?img, world0)"
    by blast
  from pt_image_remove_first[of ?img "section_of 1 ''/b'' 0 0x10" "asid_cr3 1" "0x100" env0 world0
         "[entry 0 ''/a'' 0 0x10 (Some 1) 0 False]" "entry 1 ''/b'' 0 0x10 (Some 1) 0x100 False" "[]"]
    h2
  have r2: "pt_image_remove env0 (Some ?img) (Some (section_of 1 ''/b'' 0 0x10))
              (Some (asid_cr3 1)) 0x100 world0
            = (ok, Some (?img\<lparr>sections := [entry 0 ''/a'' 0 0x10 (Some 1) 0 False] @ []\<rparr>),
               pt_section_list_free env0 (entry 1 ''/b'' 0 0x10 (Some 1) 0x100 False) world0)"
    by blast
  from h1 h2 r1 r2 e show ?thesis by (simp add: list_all_iff)
qed

text \<open>
  Against claim C6 as stated: with a cache of one, the three reads of scenario 4 leave three
  mapped elements, since the sections at 0 and 1 cannot be unmapped. Pruning keeps the first
  element, fails to unmap the section at 1 with the bad-image error, goes on, fails to unmap
  the section at 0 with the internal error, and returns the internal error: the last, not
  the first.
\<close>

theorem prune_returns_last_error:
  "fst (snd (lru_r2 env_unmap 1))
     = Some ((image_of [entry 2 ''/s2'' 0 0x10 (Some 1) 0x20 True,
                        entry 1 ''/s1'' 0 0x10 (Some 1) 0x10 True,
                        entry 0 ''/s0'' 0 0x10 (Some 1) 0 True])\<lparr>cache := 1, pt_image.mapped := 3\<rparr>) \<and>
   unmap_errors (drop (length (trace (snd (snd (lru_r2 env_unmap 1))))) (trace (snd (snd prune_run))))
     = [pte_bad_image, pte_internal] \<and>
   fst prune_run = Inl pte_internal \<and>
   fst prune_run \<noteq> Inl pte_bad_image \<and>
   fst (snd prune_run) = the (fst (snd (lru_r2 env_unmap 1)))"
  by (simp add: prune_run_value lru_r2_one_value run_defs)

text \<open>
  An instance of the theorem on pruning: three mapped elements, a cache of one, and a store
  in which no section is mapped, so that every unmap fails.
\<close>

theorem pt_image_prune_cache_result_witness:
  "length (sections ((image_of [entry 2 ''/s2'' 0 0x10 (Some 1) 0x20 True,
                                entry 1 ''/s1'' 0 0x10 (Some 1) 0x10 True,
                                entry 0 ''/s0'' 0 0x10 (Some 1) 0 True])\<lparr>cache := 1\<rparr>)) < 65536 \<and>
   fst (pt_image_prune_cache env0
          ((image_of [entry 2 ''/s2'' 0 0x10 (Some 1) 0x20 True,
                      entry 1 ''/s1'' 0 0x10 (Some 1) 0x10 True,
                      entry 0 ''/s0'' 0 0x10 (Some 1) 0 True])\<lparr>cache := 1\<rparr>) world0)
     = Inl pte_not_mapped \<and>
   pt_image.mapped (fst (snd (pt_image_prune_cache env0
          ((image_of [entry 2 ''/s2'' 0 0x10 (Some 1) 0x20 True,
                      entry 1 ''/s1'' 0 0x10 (Some 1) 0x10 True,
                      entry 0 ''/s0'' 0 0x10 (Some 1) 0 True])\<lparr>cache := 1\<rparr>) world0))) = 3 \<and>
   length (filter pt_section_list.mapped (sections (fst (snd (pt_image_prune_cache env0
          ((image_of [entry 2 ''/s2'' 0 0x10 (Some 1) 0x20 True,
                      entry 1 ''/s1'' 0 0x10 (Some 1) 0x10 True,
                      entry 0 ''/s0'' 0 0x10 (Some 1) 0 True])\<lparr>cache := 1\<rparr>) world0)))))
     \<le> unat (cache ((image_of [entry 2 ''/s2'' 0 0x10 (Some 1) 0x20 True,
                                entry 1 ''/s1'' 0 0x10 (Some 1) 0x10 True,
                                entry 0 ''/s0'' 0 0x10 (Some 1) 0 True])\<lparr>cache := 1\<rparr>))
       + length (unmap_errors (drop (length (trace world0))
           (trace (snd (snd (pt_image_prune_cache env0
          ((image_of [entry 2 ''/s2'' 0 0x10 (Some 1) 0x20 True,
                      entry 1 ''/s1'' 0 0x10 (Some 1) 0x10 True,
                      entry 0 ''/s0'' 0 0x10 (Some 1) 0 True])\<lparr>cache := 1\<rparr>) world0))))))"
proof -
  let ?img = "(image_of [entry 2 ''/s2'' 0 0x10 (Some 1) 0x20 True,
                         entry 1 ''/s1'' 0 0x10 (Some 1) 0x10 True,
                         entry 0 ''/s0'' 0 0x10 (Some 1) 0 True])\<lparr>cache := 1\<rparr>"
  have h: "length (sections ?img) < 65536"
    by (simp add: image_of_def)
  have v: "fst (pt_image_prune_cache env0 ?img world0) = Inl pte_not_mapped \<and>
           pt_image.mapped (fst (snd (pt_image_prune_cache env0 ?img world0))) = 3"
    by (simp add: run_defs)
  from pt_image_prune_cache_result[of env0 ?img world0] h v show ?thesis by blast
qed

text \<open>
  Against claim C8 as stated: the image holds /a at addresses 0 to 16 and a callback that
  yields one byte; the section cannot be mapped. A read at 0x1234, which no section answers,
  returns the error of the map; the callback would have returned the byte.
\<close>

theorem read_returns_map_error:
  "fst (snd cb_a) = Some (image_of [entry 0 ''/a'' 0 0x10 (Some 1) 0 False]) \<and>
   fst cb_s = ok \<and>
   fst cb_r = Inl pte_bad_image \<and>
   pt_image_read_callback (the (snd cb_s)) 4 (asid_cr3 1) 0x1234 = Inr [0xAB] \<and>
   fst cb_r \<noteq> pt_image_read_callback (the (snd cb_s)) 4 (asid_cr3 1) 0x1234"
  by (simp add: cb_r_value cb_s_value cb_a_value one_byte_def run_defs)

text \<open>
  An instance of the theorem on reads that no section answers, scenario 5 of the
  specification with a section in the image: the callback yields one byte.
\<close>

theorem pt_image_read_fallback_witness:
  "list_all (Not \<circ> (\<lambda>m. covers m (asid_cr3 1) 0x1234) \<circ> msec)
     (sections ((image_of [entry 0 ''/a'' 0 0x10 (Some 1) 0 False])
                  \<lparr>readmem_callback := Some one_byte\<rparr>)) \<and>
   no_faults_after env0 world0 \<and>
   fst (pt_image_read env0
          (Some ((image_of [entry 0 ''/a'' 0 0x10 (Some 1) 0 False])
                   \<lparr>readmem_callback := Some one_byte\<rparr>))
          4 (Some (asid_cr3 1)) 0x1234 world0) = Inr [0xAB] \<and>
   fst (snd (pt_image_read env0
          (Some ((image_of [entry 0 ''/a'' 0 0x10 (Some 1) 0 False])
                   \<lparr>readmem_callback := Some one_byte\<rparr>))
          4 (Some (asid_cr3 1)) 0x1234 world0))
     = Some ((image_of [entry 0 ''/a'' 0 0x10 (Some 1) 0 False])
               \<lparr>readmem_callback := Some one_byte\<rparr>)"
proof -
  let ?img = "(image_of [entry 0 ''/a'' 0 0x10 (Some 1) 0 False])
                \<lparr>readmem_callback := Some one_byte\<rparr>"
  have h1: "\<forall>l\<in>set (sections ?img). \<not> covers (msec l) (asid_cr3 1) 0x1234"
    by (simp add: covers_def run_defs)
  have h2: "no_faults_after env0 world0"
    by (simp add: no_faults_after_def env0_sel)
  have c: "(case readmem_callback ?img of None \<Rightarrow> Inl pte_nomap
            | Some cb \<Rightarrow> cb 4 (asid_cr3 1) 0x1234 (readmem_context ?img)) = Inr [0xAB]"
    by (simp add: one_byte_def)
  from pt_image_read_fallback[OF h1 h2, of 4] c h1 h2 show ?thesis
    by (simp add: list_all_iff)
qed

section \<open>The scenarios of the specification and the resident counter\<close>

text \<open>
  Claim C3, scenario 1. Both adds succeed and leave three elements: /a from file offset
  0x500 with 0xb00 bytes at 0x10500, /a from file offset 0 with 0x400 bytes at 0x10000, and
  all of /b at 0x10400, in this list order.
\<close>

theorem overlap_split:
  "fst split_a = ok \<and> fst split_b = ok \<and>
   fst (snd split_b) = Some (image_of [entry 3 ''/a'' 0x500 0xb00 (Some 1) 0x10500 False,
                                        entry 2 ''/a'' 0 0x400 (Some 1) 0x10000 False,
                                        entry 1 ''/b'' 0 0x100 (Some 1) 0x10400 False])"
  by (simp add: split_b_value split_a_value run_defs)

text \<open>
  Claim C5, scenario 4. With a cache of two, the three reads succeed; each maps its section,
  and the third unmaps the section of the first. Afterwards the resident counter is 2, the
  element of s2 is at the head, and the element of s0, at the tail, is not mapped.
\<close>

theorem lru_promotion_and_prune:
  "fst (lru_r0 env0 2) = Inr [0, 0, 0, 0] \<and>
   fst (lru_r1 env0 2) = Inr [0, 0, 0, 0] \<and>
   fst (lru_r2 env0 2) = Inr [0, 0, 0, 0] \<and>
   map fst (drop (length (trace (snd (snd (lru_c env0 2))))) (trace (snd (snd (lru_r2 env0 2)))))
     = [Map 0, Map 1, Map 2, Unmap 0] \<and>
   fst (snd (lru_r2 env0 2))
     = Some ((image_of [entry 2 ''/s2'' 0 0x10 (Some 1) 0x20 True,
                        entry 1 ''/s1'' 0 0x10 (Some 1) 0x10 True,
                        entry 0 ''/s0'' 0 0x10 (Some 1) 0 False])\<lparr>cache := 2, pt_image.mapped := 2\<rparr>)"
  by (simp add: lru_r2_two_value lru_r1_two_value lru_r0_two_value lru_c_two_value run_defs)

text \<open>
  Claim C2, which the code breaks. /a is added and read, so that its element is mapped and
  the resident counter is 1. The add of /b at the same addresses removes the element of /a,
  and the image is left with one element, not mapped, and a resident counter of 1.
\<close>

theorem resident_counter_stale:
  "fst stale_b = Inr [0, 0, 0, 0] \<and>
   fst (snd stale_b)
     = Some ((image_of [entry 0 ''/a'' 0 0x10 (Some 1) 0 True])\<lparr>pt_image.mapped := 1\<rparr>) \<and>
   fst stale_c = ok \<and>
   fst (snd stale_c)
     = Some ((image_of [entry 1 ''/b'' 0 0x10 (Some 1) 0 False])\<lparr>pt_image.mapped := 1\<rparr>) \<and>
   pt_image.mapped (the (fst (snd stale_c)))
     \<noteq> of_nat (length (filter pt_section_list.mapped (sections (the (fst (snd stale_c))))))"
  by (simp add: stale_c_value stale_b_value run_defs)

end
